theory Spec2Isabelle
  imports Main
begin

section \<open>Go values used by the NFC service (cmd/nfc/main.go)\<close>

text \<open>
  Instants and durations are integers counting nanoseconds, as Go's \<open>time.Duration\<close>
  does; an instant counts from the Unix epoch. \<open>time.Since t\<close> is the clock reading
  minus \<open>t\<close>. Go saturates a difference that overflows 64 bits; saturation keeps the
  sign and the order against the small constants used here, so unbounded integers
  give the same comparisons.
\<close>

type_synonym time = int
type_synonym duration = int
type_synonym bytes = string

definition Millisecond :: duration where
  "Millisecond = 1000000"

definition Second :: duration where
  "Second = 1000000000"

definition zeroTime :: time where
  "zeroTime = - 62135596800 * 1000000000"

definition time_Since :: "time \<Rightarrow> time \<Rightarrow> duration" where
  "time_Since clock t = clock - t"

definition Unix :: "time \<Rightarrow> int" where
  "Unix t = t div 1000000000"

definition connectMaxTries :: int where
  "connectMaxTries = 10"

definition timesToPoll :: int where
  "timesToPoll = 20"

definition periodBetweenPolls :: duration where
  "periodBetweenPolls = 300 * Millisecond"

definition periodBetweenLoop :: duration where
  "periodBetweenLoop = 300 * Millisecond"

definition timeToForgetCard :: duration where
  "timeToForgetCard = 5 * Second"

text \<open>
  Errors. \<open>nfc.Error\<close> is an integer code of the driver library; the service compares
  against two of them only. \<open>Errorf\<close> is an error made by \<open>fmt.Errorf\<close> with the verb
  \<open>%s\<close>: it keeps the text of the error it was made from and does not wrap it, so
  \<open>errors.Is\<close> never finds the original inside.
\<close>

datatype nfc_error = EIO | ETIMEOUT | ENFC int

datatype go_error = NfcError nfc_error | OtherError string | Errorf string go_error

definition errors_Is :: "go_error option \<Rightarrow> go_error \<Rightarrow> bool" where
  "errors_Is err target = (case err of None \<Rightarrow> False | Some e \<Rightarrow> e = target)"

text \<open>
  The configuration record \<open>config.NfcConfig\<close> is declared outside this file; the
  service reads these three fields of it.
\<close>

record NfcConfig =
  ConnectionString :: string
  ProbeDevice :: bool
  DisableSounds :: bool

section \<open>Opening the reader: getSerialDeviceList, detectConnectionString,
  openDeviceWithRetries\<close>

text \<open>
  The world outside the process is an input. \<open>nfc_Open k s\<close> is what the \<open>k\<close>-th call
  of \<open>nfc.Open\<close> made by one run of \<open>openDeviceWithRetries\<close> returns on the connection
  string \<open>s\<close> (\<open>Inl\<close> the error, \<open>Inr\<close> the device handle), and \<open>serial_dir\<close> is the
  listing of \<open>/dev/serial/by-id/\<close> as pairs of name and is-a-directory, \<open>None\<close> when
  the directory cannot be opened or read.
\<close>

type_synonym device = nat

record open_env =
  nfc_Open :: "nat \<Rightarrow> string \<Rightarrow> go_error + device"
  serial_dir :: "(string \<times> bool) list option"

definition getSerialDeviceList :: "open_env \<Rightarrow> string list" where
  "getSerialDeviceList env =
     (case serial_dir env of
        None \<Rightarrow> []
      | Some files \<Rightarrow> map (\<lambda>v. ''/dev/serial/by-id/'' @ fst v) (filter (\<lambda>v. \<not> snd v) files))"

text \<open>
  \<open>detectConnectionString\<close>: the loop over the serial devices, from call number \<open>k\<close>
  on. The result is the connection string found (empty when none opens) and the
  number of calls of \<open>nfc.Open\<close> made so far.
\<close>

fun detectLoop :: "open_env \<Rightarrow> nat \<Rightarrow> string list \<Rightarrow> string \<times> nat" where
  "detectLoop env k [] = ('''', k)"
| "detectLoop env k (dev # devices) =
     (let connectionString = ''pn532_uart:'' @ dev in
      case nfc_Open env k connectionString of
        Inr pnd \<Rightarrow> (connectionString, Suc k)
      | Inl err \<Rightarrow> detectLoop env (Suc k) devices)"

definition detectConnectionString :: "open_env \<Rightarrow> string \<times> nat" where
  "detectConnectionString env = detectLoop env 0 (getSerialDeviceList env)"

text \<open>
  The retry loop of \<open>openDeviceWithRetries\<close>, with the counter \<open>tries\<close> of the source
  and the number \<open>k\<close> of the next call of \<open>nfc.Open\<close>. It returns what the source
  returns and the number of calls of \<open>nfc.Open\<close> made in all.
\<close>

function retryLoop :: "open_env \<Rightarrow> string \<Rightarrow> nat \<Rightarrow> int \<Rightarrow> (go_error + device) \<times> nat" where
  "retryLoop env connectionString k tries =
     (case nfc_Open env k connectionString of
        Inr pnd \<Rightarrow> (Inr pnd, Suc k)
      | Inl err \<Rightarrow>
          if tries \<ge> connectMaxTries then (Inl err, Suc k)
          else retryLoop env connectionString (Suc k) (tries + 1))"
  by pat_completeness auto
termination
  by (relation "measure (\<lambda>(env, cs, k, tries). nat (connectMaxTries - tries))") auto

declare retryLoop.simps [simp del]

definition openDeviceWithRetries :: "NfcConfig \<Rightarrow> open_env \<Rightarrow> (go_error + device) \<times> nat" where
  "openDeviceWithRetries config env =
     (let (connectionString, k) =
            (if ConnectionString config = '''' \<and> ProbeDevice config = True
             then detectConnectionString env
             else (ConnectionString config, 0))
      in retryLoop env connectionString k 0)"


section \<open>Cards and the shared state\<close>

text \<open>
  \<open>Card.CardType\<close> is a string in the source, compared against the two constants
  \<open>TypeNTAG\<close> and \<open>TypeMifare\<close>, which are declared in another file of the package.
  The datatype keeps exactly that: the two constants, and every other string.
  \<open>emptyCard\<close> is Go's zero value \<open>Card{}\<close>.
\<close>

datatype card_type = TypeNTAG | TypeMifare | TypeOther string

record Card =
  CardType :: card_type
  UID :: string
  Text :: string
  ScanTime :: time

definition emptyCard :: Card where
  "emptyCard = \<lparr>CardType = TypeOther '''', UID = '''', Text = '''', ScanTime = zeroTime\<rparr>"

text \<open>
  \<open>ServiceState\<close> without its mutex: every method of the source takes the lock for
  its whole body, so each is one atomic function of the state here. The two maps
  of the database are association lists; nothing in this file looks into them.
\<close>

record ServiceState =
  activeCard :: Card
  lastScanned :: Card
  stopService :: bool
  disableLauncher :: bool
  dbLoadTime :: time
  uidMap :: "(string \<times> string) list"
  textMap :: "(string \<times> string) list"

definition newServiceState :: ServiceState where
  "newServiceState =
     \<lparr>activeCard = emptyCard, lastScanned = emptyCard, stopService = False,
      disableLauncher = False, dbLoadTime = zeroTime,
      uidMap = [], textMap = []\<rparr>"

text \<open>
  What the service does to the world, in the order it does it. Log lines are left
  out. \<open>WriteScanResult\<close> is the call of \<open>writeScanResult\<close> with the line it writes,
  \<open>LaunchCard\<close> the call of \<open>launchCard\<close>, \<open>SocketWrite\<close> the reply written to a control
  connection.
\<close>

datatype effect =
    PlaySuccess
  | PlayFail
  | WriteScanResult string
  | LaunchCard
  | Sleep duration
  | CreateDisabledFile
  | RemoveDisabledFile
  | SocketWrite string

definition SetActiveCard :: "ServiceState \<Rightarrow> Card \<Rightarrow> ServiceState" where
  "SetActiveCard s crd =
     (let s1 = s\<lparr>activeCard := crd\<rparr>
      in if UID (activeCard s1) \<noteq> '''' then s1\<lparr>lastScanned := crd\<rparr> else s1)"

definition StopService :: "ServiceState \<Rightarrow> ServiceState" where
  "StopService s = s\<lparr>stopService := True\<rparr>"

definition DisableLauncher :: "ServiceState \<Rightarrow> ServiceState \<times> effect list" where
  "DisableLauncher s = (s\<lparr>disableLauncher := True\<rparr>, [CreateDisabledFile])"

definition EnableLauncher :: "ServiceState \<Rightarrow> ServiceState \<times> effect list" where
  "EnableLauncher s = (s\<lparr>disableLauncher := False\<rparr>, [RemoveDisabledFile])"

section \<open>pollDevice\<close>

text \<open>
  One call of \<open>pollDevice\<close> sees: the count and error of \<open>InitiatorPollTarget\<close>, what
  \<open>getCardUID\<close> and \<open>getCardType\<close> make of the target, what \<open>readNtag\<close> and
  \<open>readMifare\<close> return (record bytes and error), and the clock. The helpers are in
  other files of the package; their results are inputs. \<open>ParseRecordText\<close> is a
  parameter, \<open>parseRecordText\<close>, for the same reason.
\<close>

record poll_input =
  poll_count :: int
  poll_err :: "go_error option"
  target_uid :: string
  target_type :: card_type
  ntag_read :: "bytes \<times> go_error option"
  mifare_read :: "bytes \<times> go_error option"
  now :: time

definition pollDevice ::
  "(bytes \<Rightarrow> string) \<Rightarrow> poll_input \<Rightarrow> Card \<Rightarrow> Card \<times> go_error option" where
  "pollDevice parseRecordText inp crd =
     (if poll_err inp \<noteq> None \<and> \<not> errors_Is (poll_err inp) (NfcError ETIMEOUT)
      then (crd, poll_err inp)
      else if poll_count inp \<le> 0
      then (if UID crd \<noteq> '''' \<and> time_Since (now inp) (ScanTime crd) > timeToForgetCard
            then (emptyCard, None)
            else (crd, None))
      else
        let cardUid = target_uid inp in
        if cardUid = UID crd then (crd, None)
        else
          let cardType = target_type inp in
          if cardType = TypeNTAG \<and> snd (ntag_read inp) \<noteq> None
          then (crd, Some (Errorf ''error reading ntag: %s'' (the (snd (ntag_read inp)))))
          else
            let rec = (if cardType = TypeNTAG then fst (ntag_read inp)
                       else if cardType = TypeMifare then fst (mifare_read inp)
                       else [])
            in (\<lparr>CardType = cardType, UID = cardUid, Text = parseRecordText rec,
                 ScanTime = now inp\<rparr>, None))"

section \<open>The poll goroutine of startService\<close>

text \<open>
  One pass through the body of the \<open>for\<close> loop, after the test of the stop flag. It
  leaves by \<open>goto end\<close> or by \<open>goto reconnect\<close>. Inputs besides the poll: the error
  of \<open>launchCard\<close> (another file of the package; it is handed the state and is taken
  not to change it), the clock read by the error branches, and, for a reconnect,
  the world of \<open>openDeviceWithRetries\<close> and the error of \<open>InitiatorInit\<close>.
\<close>

record tick_input =
  poll :: poll_input
  launch_err :: "go_error option"
  clock :: time
  reopen :: open_env
  init_err :: "go_error option"

datatype tick_exit = End | Reconnect

definition playSuccess :: "NfcConfig \<Rightarrow> effect list" where
  "playSuccess cfg = (if DisableSounds cfg then [] else [PlaySuccess])"

definition playFail :: "NfcConfig \<Rightarrow> effect list" where
  "playFail cfg = (if DisableSounds cfg then [] else [PlayFail])"

definition failSound :: "NfcConfig \<Rightarrow> time \<Rightarrow> time \<Rightarrow> effect list" where
  "failSound cfg lastErr t = (if time_Since t lastErr > 1 * Second then playFail cfg else [])"

definition scanResultLine :: "Card \<Rightarrow> string" where
  "scanResultLine crd = UID crd @ '','' @ Text crd"

definition pollTick ::
  "NfcConfig \<Rightarrow> (bytes \<Rightarrow> string) \<Rightarrow> tick_input \<Rightarrow> ServiceState \<Rightarrow> time
     \<Rightarrow> tick_exit \<times> ServiceState \<times> time \<times> effect list" where
  "pollTick cfg parseRecordText inp s lastErr =
     (let crd = activeCard s;
          (newScanned, err) = pollDevice parseRecordText (poll inp) crd
      in if errors_Is err (NfcError EIO)
         then (Reconnect, s, lastErr, failSound cfg lastErr (clock inp))
         else if err \<noteq> None
         then (End, s, clock inp, failSound cfg lastErr (clock inp))
         else
           let s1 = SetActiveCard s newScanned in
           if UID newScanned = '''' \<or> UID crd = UID newScanned
           then (End, s1, lastErr, [])
           else
             let fx = playSuccess cfg @ [WriteScanResult (scanResultLine newScanned)] in
             if disableLauncher s1 then (End, s1, lastErr, fx)
             else if launch_err inp \<noteq> None
             then (End, s1, clock inp,
                   fx @ [LaunchCard] @ failSound cfg lastErr (clock inp))
             else (End, s1, lastErr, fx @ [LaunchCard]))"

text \<open>
  The label \<open>reconnect\<close>: open the device with retries, then \<open>InitiatorInit\<close>; either
  failing ends the goroutine.
\<close>

datatype loop_status = Polling | Stopped | OpenFailed | InitFailed

definition connect :: "NfcConfig \<Rightarrow> open_env \<Rightarrow> go_error option \<Rightarrow> loop_status" where
  "connect cfg env ierr =
     (case fst (openDeviceWithRetries cfg env) of
        Inl err \<Rightarrow> OpenFailed
      | Inr pnd \<Rightarrow> (if ierr \<noteq> None then InitFailed else Polling))"

section \<open>The control socket\<close>

text \<open>
  \<open>strings.TrimSpace\<close> removes leading and trailing Unicode white space. On the
  bytes of a Go string these are the six ASCII characters below and the UTF-8
  encodings of U+0085, U+00A0, U+1680, U+2000 to U+200A, U+2028, U+2029, U+202F,
  U+205F and U+3000.
\<close>

definition asciiSpace :: "char \<Rightarrow> bool" where
  "asciiSpace c = (c \<in> set [CHR 0x09, CHR 0x0A, CHR 0x0B, CHR 0x0C, CHR 0x0D, CHR 0x20])"

definition unicodeSpaces :: "string list" where
  "unicodeSpaces =
     [[CHR 0xC2, CHR 0x85], [CHR 0xC2, CHR 0xA0], [CHR 0xE1, CHR 0x9A, CHR 0x80],
      [CHR 0xE2, CHR 0x80, CHR 0x80], [CHR 0xE2, CHR 0x80, CHR 0x81],
      [CHR 0xE2, CHR 0x80, CHR 0x82], [CHR 0xE2, CHR 0x80, CHR 0x83],
      [CHR 0xE2, CHR 0x80, CHR 0x84], [CHR 0xE2, CHR 0x80, CHR 0x85],
      [CHR 0xE2, CHR 0x80, CHR 0x86], [CHR 0xE2, CHR 0x80, CHR 0x87],
      [CHR 0xE2, CHR 0x80, CHR 0x88], [CHR 0xE2, CHR 0x80, CHR 0x89],
      [CHR 0xE2, CHR 0x80, CHR 0x8A], [CHR 0xE2, CHR 0x80, CHR 0xA8],
      [CHR 0xE2, CHR 0x80, CHR 0xA9], [CHR 0xE2, CHR 0x80, CHR 0xAF],
      [CHR 0xE2, CHR 0x81, CHR 0x9F], [CHR 0xE3, CHR 0x80, CHR 0x80]]"

definition spaceWidth :: "string list \<Rightarrow> string \<Rightarrow> nat" where
  "spaceWidth seqs s =
     (case s of
        [] \<Rightarrow> 0
      | c # rest \<Rightarrow>
          if asciiSpace c then 1
          else (case find (\<lambda>w. take (length w) s = w) seqs of
                  Some w \<Rightarrow> length w
                | None \<Rightarrow> 0))"

function trimLeft :: "string list \<Rightarrow> string \<Rightarrow> string" where
  "trimLeft seqs s =
     (if spaceWidth seqs s = 0 then s else trimLeft seqs (drop (spaceWidth seqs s) s))"
  by pat_completeness auto
termination
  by (relation "measure (\<lambda>(seqs, s). length s)")
     (auto simp: spaceWidth_def split: list.splits)

declare trimLeft.simps [simp del]

definition TrimSpace :: "string \<Rightarrow> string" where
  "TrimSpace s = rev (trimLeft (map rev unicodeSpaces) (rev (trimLeft unicodeSpaces s)))"

text \<open>The verbs \<open>%d\<close> (on an integer) and \<open>%t\<close> of \<open>fmt.Sprintf\<close>.\<close>

definition digit :: "nat \<Rightarrow> char" where
  "digit d = ''0123456789'' ! d"

fun decimal :: "nat \<Rightarrow> string" where
  "decimal n = (if n < 10 then [digit n] else decimal (n div 10) @ [digit (n mod 10)])"

declare decimal.simps [simp del]

definition fmt_d :: "int \<Rightarrow> string" where
  "fmt_d i = (if i < 0 then CHR ''-'' # decimal (nat (- i)) else decimal (nat i))"

definition fmt_t :: "bool \<Rightarrow> string" where
  "fmt_t b = (if b then ''true'' else ''false'')"

text \<open>
  One accepted connection. The input is what \<open>conn.Read\<close> returns: an error, or the
  bytes read (at most 4096). The result is the new state, the payload written to
  the connection (\<open>None\<close> when the handler returns without writing) and the effects.
\<close>

definition handleConn ::
  "ServiceState \<Rightarrow> go_error + bytes \<Rightarrow> ServiceState \<times> string option \<times> effect list" where
  "handleConn s rd =
     (case rd of
        Inl err \<Rightarrow> (s, None, [])
      | Inr buf \<Rightarrow>
          if length buf = 0 then (s, None, [])
          else
            let cmd = TrimSpace buf in
            if cmd = ''status'' then
              (let scanned = lastScanned s in
               if UID scanned \<noteq> ''''
               then (s, Some (fmt_d (Unix (ScanTime scanned)) @ '','' @ UID scanned @ '',''
                              @ fmt_t (\<not> disableLauncher s) @ '','' @ Text scanned), [])
               else (s, Some (''0,,'' @ fmt_t (\<not> disableLauncher s) @ '',''), []))
            else if cmd = ''disable'' then
              (fst (DisableLauncher s), Some '''', snd (DisableLauncher s))
            else if cmd = ''enable'' then
              (fst (EnableLauncher s), Some '''', snd (EnableLauncher s))
            else (s, Some '''', []))"

section \<open>The running service\<close>

text \<open>
  The goroutines started by \<open>startService\<close> share the state; the model interleaves
  them at the grain of one loop pass, one served connection, one call of the stop
  function. \<open>status\<close> says whether the poll goroutine is still in its loop;
  \<open>lastError\<close> is its local variable, declared anew after each reconnect.
\<close>

record service =
  state :: ServiceState
  status :: loop_status
  lastError :: time
  effects :: "effect list"

datatype event = Tick tick_input | Socket "go_error + bytes" | StopRequest

fun step :: "NfcConfig \<Rightarrow> (bytes \<Rightarrow> string) \<Rightarrow> service \<Rightarrow> event \<Rightarrow> service" where
  "step cfg parseRecordText sv (Tick inp) =
     (if status sv \<noteq> Polling then sv
      else if stopService (state sv) then sv\<lparr>status := Stopped\<rparr>
      else
        case pollTick cfg parseRecordText inp (state sv) (lastError sv) of
          (Reconnect, s1, lastErr, fx) \<Rightarrow>
            sv\<lparr>state := s1, status := connect cfg (reopen inp) (init_err inp),
               lastError := zeroTime, effects := effects sv @ fx\<rparr>
        | (End, s1, lastErr, fx) \<Rightarrow>
            sv\<lparr>state := s1, lastError := lastErr,
               effects := effects sv @ fx @ [Sleep periodBetweenLoop]\<rparr>)"
| "step cfg parseRecordText sv (Socket rd) =
     (if stopService (state sv) then sv
      else
        case handleConn (state sv) rd of
          (s1, reply, fx) \<Rightarrow>
            sv\<lparr>state := s1,
               effects := effects sv @ fx
                          @ (case reply of None \<Rightarrow> [] | Some payload \<Rightarrow> [SocketWrite payload])\<rparr>)"
| "step cfg parseRecordText sv StopRequest = sv\<lparr>state := StopService (state sv)\<rparr>"

definition run :: "NfcConfig \<Rightarrow> (bytes \<Rightarrow> string) \<Rightarrow> service \<Rightarrow> event list \<Rightarrow> service" where
  "run cfg parseRecordText sv evs = foldl (step cfg parseRecordText) sv evs"

text \<open>
  The service as \<open>startService\<close> leaves it: a fresh state, the launcher disabled
  when the sentinel file exists, and the poll goroutine after its first connect.
  (Keyboard, database, sound files and the database watcher do not touch the
  fields the poll loop and the socket use.)
\<close>

definition startService :: "NfcConfig \<Rightarrow> bool \<Rightarrow> open_env \<Rightarrow> go_error option \<Rightarrow> service" where
  "startService cfg sentinel env ierr =
     \<lparr>state = (if sentinel then fst (DisableLauncher newServiceState) else newServiceState),
      status = connect cfg env ierr,
      lastError = zeroTime,
      effects = (if sentinel then snd (DisableLauncher newServiceState) else [])\<rparr>"

text \<open>
  Two readings of one loop pass used in the statements below: \<open>newArrival\<close> is the
  loop's own test for going on past \<open>SetActiveCard\<close> (no error from \<open>pollDevice\<close>, a
  non-empty UID, and one that differs from the active card's), and \<open>tickEffects\<close>
  are the effects of the pass before its sleep.
\<close>

definition newArrival :: "(bytes \<Rightarrow> string) \<Rightarrow> tick_input \<Rightarrow> ServiceState \<Rightarrow> bool" where
  "newArrival parseRecordText inp s =
     (case pollDevice parseRecordText (poll inp) (activeCard s) of
        (newScanned, err) \<Rightarrow>
          err = None \<and> UID newScanned \<noteq> '''' \<and> UID newScanned \<noteq> UID (activeCard s))"

definition tickEffects ::
  "NfcConfig \<Rightarrow> (bytes \<Rightarrow> string) \<Rightarrow> tick_input \<Rightarrow> ServiceState \<Rightarrow> time \<Rightarrow> effect list" where
  "tickEffects cfg parseRecordText inp s lastErr =
     snd (snd (snd (pollTick cfg parseRecordText inp s lastErr)))"

definition tickState ::
  "NfcConfig \<Rightarrow> (bytes \<Rightarrow> string) \<Rightarrow> tick_input \<Rightarrow> ServiceState \<Rightarrow> time \<Rightarrow> ServiceState" where
  "tickState cfg parseRecordText inp s lastErr =
     fst (snd (pollTick cfg parseRecordText inp s lastErr))"

section \<open>Write mode: handleWriteCommand\<close>









section \<open>The HTTP handler LaunchGame (cmd/remote/games/launchers.go)\<close>

text \<open>
  \<open>games.System\<close>, \<open>games.FolderToSystems\<close> and \<open>mister.LaunchGame\<close> are outside this
  file: the handler reads the field \<open>Id\<close> of a system, and the two functions are
  inputs, as is what the JSON decoder makes of the request body (an error, or the
  field \<open>path\<close>). Indexing a Go slice out of range panics; \<open>index\<close> says so.
\<close>

record System =
  sys_Id :: string

datatype panic = IndexOutOfRange nat nat

definition index :: "'a list \<Rightarrow> nat \<Rightarrow> panic + 'a" where
  "index xs i = (if i < length xs then Inr (xs ! i) else Inl (IndexOutOfRange i (length xs)))"

datatype message = ErrorText go_error | Literal string

datatype http_effect =
    HttpError message int
  | LogError string "message list"
  | MisterLaunchGame System string

record launch_env =
  decoded :: "go_error + string"
  FolderToSystems :: "string \<Rightarrow> System list"
  mister_LaunchGame :: "System \<Rightarrow> string \<Rightarrow> go_error option"

definition StatusBadRequest :: int where
  "StatusBadRequest = 400"

definition StatusInternalServerError :: int where
  "StatusInternalServerError = 500"

text \<open>
  The result is the panic, if the handler panics, and what it did before.
\<close>

definition LaunchGame :: "launch_env \<Rightarrow> panic option \<times> http_effect list" where
  "LaunchGame env =
     (case decoded env of
        Inl err \<Rightarrow>
          (None, [HttpError (ErrorText err) StatusBadRequest,
                  LogError ''launch game: decoding request: %s'' [ErrorText err]])
      | Inr path \<Rightarrow>
          let syss = FolderToSystems env path in
          if length syss = 0
          then (case index syss 0 of
                  Inl p \<Rightarrow>
                    (Some p, [HttpError (Literal ''no system found for game'') StatusBadRequest])
                | Inr sys0 \<Rightarrow>
                    (None, [HttpError (Literal ''no system found for game'') StatusBadRequest,
                            LogError ''launch game: no system found for game: %s (%s)''
                              [Literal path, Literal (sys_Id sys0)]]))
          else (case index syss 0 of
                  Inl p \<Rightarrow> (Some p, [])
                | Inr sys0 \<Rightarrow>
                    (case mister_LaunchGame env sys0 path of
                       Some err \<Rightarrow>
                         (None, [MisterLaunchGame sys0 path,
                                 HttpError (ErrorText err) StatusInternalServerError,
                                 LogError ''launch game: during launch: %s'' [ErrorText err]])
                     | None \<Rightarrow> (None, [MisterLaunchGame sys0 path]))))"

section \<open>Example inputs\<close>

text \<open>
  Concrete values at which the theorems below are evaluated: a configuration, a
  reader that opens at the first attempt and one that never opens, a stand-in for
  \<open>ParseRecordText\<close> that takes the record bytes as the text, and loop passes in
  which the reader reports one tag, no tag, or a bus error.
\<close>

definition exampleConfig :: NfcConfig where
  "exampleConfig =
     \<lparr>ConnectionString = ''pn532_uart:/dev/ttyUSB0'', ProbeDevice = True, DisableSounds = False\<rparr>"

definition readerPresent :: open_env where
  "readerPresent = \<lparr>nfc_Open = (\<lambda>k s. Inr 0), serial_dir = None\<rparr>"

definition readerAbsent :: open_env where
  "readerAbsent = \<lparr>nfc_Open = (\<lambda>k s. Inl (NfcError (ENFC (- 4)))), serial_dir = None\<rparr>"

definition recordAsText :: "bytes \<Rightarrow> string" where
  "recordAsText rec = rec"

definition tagSeen :: "string \<Rightarrow> card_type \<Rightarrow> bytes \<times> go_error option \<Rightarrow> time \<Rightarrow> tick_input" where
  "tagSeen uid ty rd t =
     \<lparr>poll = \<lparr>poll_count = 1, poll_err = None, target_uid = uid, target_type = ty,
              ntag_read = rd, mifare_read = rd, now = t\<rparr>,
      launch_err = None, clock = t, reopen = readerPresent, init_err = None\<rparr>"

definition noTag :: "time \<Rightarrow> tick_input" where
  "noTag t =
     \<lparr>poll = \<lparr>poll_count = 0, poll_err = None, target_uid = '''', target_type = TypeOther '''',
              ntag_read = ([], None), mifare_read = ([], None), now = t\<rparr>,
      launch_err = None, clock = t, reopen = readerPresent, init_err = None\<rparr>"

definition unplugged :: "open_env \<Rightarrow> time \<Rightarrow> tick_input" where
  "unplugged env t =
     \<lparr>poll = \<lparr>poll_count = 0, poll_err = Some (NfcError EIO), target_uid = '''',
              target_type = TypeOther '''',
              ntag_read = ([], None), mifare_read = ([], None), now = t\<rparr>,
      launch_err = None, clock = t, reopen = env, init_err = None\<rparr>"

definition polling :: "ServiceState \<Rightarrow> service" where
  "polling s = \<lparr>state = s, status = Polling, lastError = zeroTime, effects = []\<rparr>"

text \<open>
  The service after an NTAG with UID 04a1b2c3d4e580 and text \<open>system:snes\<close> has
  arrived at time 0, and the card it then holds.
\<close>

definition snesCard :: Card where
  "snesCard =
     \<lparr>CardType = TypeNTAG, UID = ''04a1b2c3d4e580'', Text = ''system:snes'', ScanTime = 0\<rparr>"

definition snesSeen :: "time \<Rightarrow> tick_input" where
  "snesSeen t = tagSeen ''04a1b2c3d4e580'' TypeNTAG (''system:snes'', None) t"

definition cardPresent :: service where
  "cardPresent = run exampleConfig recordAsText (polling newServiceState) [Tick (snesSeen 0)]"


text \<open>A request for a path that belongs to no system.\<close>

definition noSystemRequest :: launch_env where
  "noSystemRequest =
     \<lparr>decoded = Inr ''/media/fat/unknown/game.bin'',
      FolderToSystems = (\<lambda>path. []),
      mister_LaunchGame = (\<lambda>system path. None)\<rparr>"

section \<open>Properties of openDeviceWithRetries\<close>

lemma retryLoop_all_fail:
  "\<forall>k s. nfc_Open env k s = Inl (err k s) \<Longrightarrow> 0 \<le> tries \<Longrightarrow> tries \<le> connectMaxTries \<Longrightarrow>
     retryLoop env cs k tries =
       (Inl (err (k + nat (connectMaxTries - tries)) cs), Suc (k + nat (connectMaxTries - tries)))"
proof (induction env cs k tries rule: retryLoop.induct)
  case (1 env cs k tries)
  have fails: "\<And>k s. nfc_Open env k s = Inl (err k s)"
    using "1.prems"(1) by simp
  show ?case
  proof (cases "tries \<ge> connectMaxTries")
    case True
    with "1.prems" have "tries = connectMaxTries" by simp
    then show ?thesis
      by (subst retryLoop.simps) (simp add: fails)
  next
    case False
    have step: "retryLoop env cs k tries = retryLoop env cs (Suc k) (tries + 1)"
      using False by (subst retryLoop.simps) (simp add: fails)
    have "retryLoop env cs (Suc k) (tries + 1) =
            (Inl (err (Suc k + nat (connectMaxTries - (tries + 1))) cs),
             Suc (Suc k + nat (connectMaxTries - (tries + 1))))"
      using "1.IH" [OF fails False] "1.prems" False by simp
    moreover have "Suc k + nat (connectMaxTries - (tries + 1)) = k + nat (connectMaxTries - tries)"
      using False "1.prems" by (simp add: nat_diff_distrib)
    ultimately show ?thesis using step by (simp only:)
  qed
qed

lemma detectLoop_all_fail:
  "\<forall>k s. nfc_Open env k s = Inl (err k s) \<Longrightarrow>
     detectLoop env k devices = ('''', k + length devices)"
  by (induction devices arbitrary: k) simp_all

text \<open>
  C8. When every call of \<open>nfc.Open\<close> fails, \<open>openDeviceWithRetries\<close> returns after the
  first attempt of its retry loop and \<open>connectMaxTries\<close> (10) retries, with the error
  of the last attempt. The probe of the serial devices, when it runs, adds one call
  for each device before that. The function is total: its loop is defined with a
  termination proof.
\<close>

theorem openDeviceWithRetries_gives_up:
  assumes fails: "\<forall>k s. nfc_Open env k s = Inl (err k s)"
  shows "openDeviceWithRetries config env =
           (let probes = (if ConnectionString config = '''' \<and> ProbeDevice config
                          then length (getSerialDeviceList env) else 0)
            in (Inl (err (probes + nat connectMaxTries) (ConnectionString config)),
                probes + 1 + nat connectMaxTries))"
proof -
  have f: "\<And>k s. nfc_Open env k s = Inl (err k s)"
    using fails by simp
  have r: "\<And>cs k. retryLoop env cs k 0 =
             (Inl (err (k + nat connectMaxTries) cs), Suc (k + nat connectMaxTries))"
    using retryLoop_all_fail [OF fails, of 0] by (simp add: connectMaxTries_def)
  show ?thesis
    by (simp add: openDeviceWithRetries_def detectConnectionString_def
        detectLoop_all_fail [OF fails] r Let_def)
qed

theorem openDeviceWithRetries_gives_up_witness:
  "(\<forall>k s. nfc_Open \<lparr>nfc_Open = (\<lambda>k s. Inl (NfcError (ENFC (int k)))), serial_dir = Some [(''ttyUSB0'', False), (''sub'', True)]\<rparr> k s
      = Inl (NfcError (ENFC (int k)))) \<and>
   openDeviceWithRetries \<lparr>ConnectionString = '''', ProbeDevice = True, DisableSounds = False\<rparr>
     \<lparr>nfc_Open = (\<lambda>k s. Inl (NfcError (ENFC (int k)))), serial_dir = Some [(''ttyUSB0'', False), (''sub'', True)]\<rparr>
     = (Inl (NfcError (ENFC 11)), 12)"
  using openDeviceWithRetries_gives_up
    [of "\<lparr>nfc_Open = (\<lambda>k s. Inl (NfcError (ENFC (int k)))), serial_dir = Some [(''ttyUSB0'', False), (''sub'', True)]\<rparr>"
        "\<lambda>k s. NfcError (ENFC (int k))"
        "\<lparr>ConnectionString = '''', ProbeDevice = True, DisableSounds = False\<rparr>"]
  by (simp add: getSerialDeviceList_def connectMaxTries_def)

section \<open>Properties of pollDevice and of one pass of the poll loop\<close>

lemma pollDevice_failed:
  "poll_err inp = Some e \<Longrightarrow> e \<noteq> NfcError ETIMEOUT \<Longrightarrow> pollDevice prt inp c = (c, Some e)"
  by (simp add: pollDevice_def errors_Is_def)

lemma pollDevice_nothing:
  "poll_err inp \<in> {None, Some (NfcError ETIMEOUT)} \<Longrightarrow> poll_count inp \<le> 0 \<Longrightarrow>
     pollDevice prt inp c =
       (if UID c \<noteq> '''' \<and> time_Since (now inp) (ScanTime c) > timeToForgetCard
        then emptyCard else c, None)"
  by (auto simp: pollDevice_def errors_Is_def)

lemma pollDevice_same:
  "poll_err inp \<in> {None, Some (NfcError ETIMEOUT)} \<Longrightarrow> 0 < poll_count inp \<Longrightarrow>
     target_uid inp = UID c \<Longrightarrow> pollDevice prt inp c = (c, None)"
  by (auto simp: pollDevice_def errors_Is_def)

lemma pollDevice_ntag_failed:
  "poll_err inp \<in> {None, Some (NfcError ETIMEOUT)} \<Longrightarrow> 0 < poll_count inp \<Longrightarrow>
     target_uid inp \<noteq> UID c \<Longrightarrow> target_type inp = TypeNTAG \<Longrightarrow> snd (ntag_read inp) = Some e \<Longrightarrow>
     pollDevice prt inp c = (c, Some (Errorf ''error reading ntag: %s'' e))"
  by (auto simp: pollDevice_def errors_Is_def)

lemma pollDevice_arrival:
  "poll_err inp \<in> {None, Some (NfcError ETIMEOUT)} \<Longrightarrow> 0 < poll_count inp \<Longrightarrow>
     target_uid inp \<noteq> UID c \<Longrightarrow> \<not> (target_type inp = TypeNTAG \<and> snd (ntag_read inp) \<noteq> None) \<Longrightarrow>
     pollDevice prt inp c =
       (\<lparr>CardType = target_type inp, UID = target_uid inp,
         Text = prt (if target_type inp = TypeNTAG then fst (ntag_read inp)
                     else if target_type inp = TypeMifare then fst (mifare_read inp)
                     else []),
         ScanTime = now inp\<rparr>, None)"
  by (auto simp: pollDevice_def errors_Is_def Let_def)

lemma pollTick_same:
  "pollDevice prt (poll inp) (activeCard s) = (activeCard s, None) \<Longrightarrow>
     pollTick cfg prt inp s le = (End, SetActiveCard s (activeCard s), le, [])"
  by (simp add: pollTick_def errors_Is_def)

lemma run_Nil [simp]: "run cfg prt sv [] = sv"
  by (simp add: run_def)

lemma run_Cons [simp]: "run cfg prt sv (e # es) = run cfg prt (step cfg prt sv e) es"
  by (simp add: run_def)

lemma run_append: "run cfg prt sv (es @ es') = run cfg prt (run cfg prt sv es) es'"
  by (simp add: run_def)

text \<open>
  A pass in which the reader reports nothing within the time to forget, or re-sees
  the active card, leaves the active card and adds nothing but the sleep.
\<close>

lemma step_quiet:
  assumes "status sv = Polling" and "\<not> stopService (state sv)"
    and "poll_err (poll inp) \<in> {None, Some (NfcError ETIMEOUT)}"
    and "(poll_count (poll inp) \<le> 0
            \<and> time_Since (now (poll inp)) (ScanTime (activeCard (state sv))) \<le> timeToForgetCard)
         \<or> (0 < poll_count (poll inp) \<and> target_uid (poll inp) = UID (activeCard (state sv)))"
  shows "step cfg prt sv (Tick inp) =
           sv\<lparr>state := SetActiveCard (state sv) (activeCard (state sv)),
              effects := effects sv @ [Sleep periodBetweenLoop]\<rparr>"
proof -
  have "pollDevice prt (poll inp) (activeCard (state sv)) = (activeCard (state sv), None)"
    using assms(3,4) pollDevice_nothing [of "poll inp" prt "activeCard (state sv)"]
      pollDevice_same [of "poll inp" "activeCard (state sv)" prt]
    by auto
  then have "pollTick cfg prt inp (state sv) (lastError sv) =
               (End, SetActiveCard (state sv) (activeCard (state sv)), lastError sv, [])"
    by (rule pollTick_same)
  then show ?thesis
    using assms(1,2) by simp
qed

lemma SetActiveCard_active [simp]: "activeCard (SetActiveCard s c) = c"
  by (simp add: SetActiveCard_def Let_def)

lemma SetActiveCard_flags [simp]:
  "stopService (SetActiveCard s c) = stopService s"
  "disableLauncher (SetActiveCard s c) = disableLauncher s"
  by (simp_all add: SetActiveCard_def Let_def)

lemma run_quiet:
  assumes "status sv = Polling" and "\<not> stopService (state sv)"
    and "\<forall>i \<in> set ticks.
           poll_err (poll i) \<in> {None, Some (NfcError ETIMEOUT)} \<and>
           ((poll_count (poll i) \<le> 0
               \<and> time_Since (now (poll i)) (ScanTime (activeCard (state sv))) \<le> timeToForgetCard)
            \<or> (0 < poll_count (poll i) \<and> target_uid (poll i) = UID (activeCard (state sv))))"
  shows "status (run cfg prt sv (map Tick ticks)) = Polling
         \<and> \<not> stopService (state (run cfg prt sv (map Tick ticks)))
         \<and> activeCard (state (run cfg prt sv (map Tick ticks))) = activeCard (state sv)
         \<and> effects (run cfg prt sv (map Tick ticks)) =
             effects sv @ replicate (length ticks) (Sleep periodBetweenLoop)"
  using assms
proof (induction ticks arbitrary: sv)
  case Nil
  then show ?case by simp
next
  case (Cons i ticks)
  let ?sv = "sv\<lparr>state := SetActiveCard (state sv) (activeCard (state sv)),
                 effects := effects sv @ [Sleep periodBetweenLoop]\<rparr>"
  have st: "step cfg prt sv (Tick i) = ?sv"
    using Cons.prems by (intro step_quiet) auto
  have a: "activeCard (state ?sv) = activeCard (state sv)" by simp
  have "status (run cfg prt ?sv (map Tick ticks)) = Polling
         \<and> \<not> stopService (state (run cfg prt ?sv (map Tick ticks)))
         \<and> activeCard (state (run cfg prt ?sv (map Tick ticks))) = activeCard (state ?sv)
         \<and> effects (run cfg prt ?sv (map Tick ticks)) =
             effects ?sv @ replicate (length ticks) (Sleep periodBetweenLoop)"
  proof (rule Cons.IH)
    show "status ?sv = Polling" using Cons.prems(1) by simp
    show "\<not> stopService (state ?sv)" using Cons.prems(2) by simp
    show "\<forall>i \<in> set ticks.
           poll_err (poll i) \<in> {None, Some (NfcError ETIMEOUT)} \<and>
           ((poll_count (poll i) \<le> 0
               \<and> time_Since (now (poll i)) (ScanTime (activeCard (state ?sv))) \<le> timeToForgetCard)
            \<or> (0 < poll_count (poll i) \<and> target_uid (poll i) = UID (activeCard (state ?sv))))"
      using Cons.prems(3) unfolding a by simp
  qed
  then show ?case
    using st by (simp add: replicate_app_Cons_same)
qed

text \<open>
  C10. \<open>pollDevice\<close> hands back the active card as it is when the same UID is seen
  again, \<open>ScanTime\<close> included, so \<open>ScanTime\<close> stays the time of the arrival. A card
  that stays on the reader through any number of loop passes is still the active
  card with its first \<open>ScanTime\<close>; once that lies more than \<open>timeToForgetCard\<close> back,
  the first pass whose poll returns no tag clears the active card, however
  recently the card was seen.
\<close>

theorem scan_time_not_refreshed:
  assumes "status sv = Polling" and "\<not> stopService (state sv)"
    and "UID (activeCard (state sv)) \<noteq> ''''"
    and "\<forall>i \<in> set seen.
           poll_err (poll i) \<in> {None, Some (NfcError ETIMEOUT)} \<and> 0 < poll_count (poll i) \<and>
           target_uid (poll i) = UID (activeCard (state sv))"
    and "poll_err (poll gone) \<in> {None, Some (NfcError ETIMEOUT)}"
    and "poll_count (poll gone) \<le> 0"
    and "time_Since (now (poll gone)) (ScanTime (activeCard (state sv))) > timeToForgetCard"
  shows "(\<forall>i \<in> set seen. \<forall>c. UID c = UID (activeCard (state sv)) \<longrightarrow>
            pollDevice prt (poll i) c = (c, None))
         \<and> activeCard (state (run cfg prt sv (map Tick seen))) = activeCard (state sv)
         \<and> activeCard (state (run cfg prt sv (map Tick seen @ [Tick gone]))) = emptyCard"
proof -
  let ?sv = "run cfg prt sv (map Tick seen)"
  have same: "\<forall>i \<in> set seen. \<forall>c. UID c = UID (activeCard (state sv)) \<longrightarrow>
                pollDevice prt (poll i) c = (c, None)"
    using assms(4) by (auto intro!: pollDevice_same)
  have q: "status ?sv = Polling \<and> \<not> stopService (state ?sv)
           \<and> activeCard (state ?sv) = activeCard (state sv)
           \<and> effects ?sv = effects sv @ replicate (length seen) (Sleep periodBetweenLoop)"
    using assms(1,2,4) by (intro run_quiet) auto
  have "pollDevice prt (poll gone) (activeCard (state ?sv)) = (emptyCard, None)"
    using pollDevice_nothing [OF assms(5,6), of prt "activeCard (state ?sv)"] q assms(3,7)
    by simp
  then have "pollTick cfg prt gone (state ?sv) (lastError ?sv) =
               (End, SetActiveCard (state ?sv) emptyCard, lastError ?sv, [])"
    by (simp add: pollTick_def errors_Is_def emptyCard_def)
  then have "activeCard (state (step cfg prt ?sv (Tick gone))) = emptyCard"
    using q by simp
  then show ?thesis
    using same q by (simp add: run_append)
qed


lemma cardPresent_eval:
  "cardPresent =
     \<lparr>state = newServiceState\<lparr>activeCard := snesCard, lastScanned := snesCard\<rparr>,
      status = Polling, lastError = zeroTime,
      effects = [PlaySuccess, WriteScanResult ''04a1b2c3d4e580,system:snes'', LaunchCard,
                 Sleep periodBetweenLoop]\<rparr>"
  by code_simp

theorem scan_time_not_refreshed_witness:
  "activeCard (state cardPresent) = snesCard
   \<and> activeCard (state (run exampleConfig recordAsText cardPresent
        (map Tick [snesSeen (3 * Second), snesSeen (5700 * Millisecond)]))) = snesCard
   \<and> activeCard (state (run exampleConfig recordAsText cardPresent
        (map Tick [snesSeen (3 * Second), snesSeen (5700 * Millisecond)]
         @ [Tick (noTag (6 * Second))]))) = emptyCard"
proof -
  have c: "activeCard (state cardPresent) = snesCard"
    by (simp add: cardPresent_eval)
  have h1: "status cardPresent = Polling" and h2: "\<not> stopService (state cardPresent)"
    by (simp_all add: cardPresent_eval newServiceState_def)
  have h3: "UID (activeCard (state cardPresent)) \<noteq> ''''"
    by (simp add: c snesCard_def)
  have h4: "\<forall>i \<in> set [snesSeen (3 * Second), snesSeen (5700 * Millisecond)].
              poll_err (poll i) \<in> {None, Some (NfcError ETIMEOUT)} \<and> 0 < poll_count (poll i) \<and>
              target_uid (poll i) = UID (activeCard (state cardPresent))"
    by (simp add: c snesCard_def snesSeen_def tagSeen_def)
  have h5: "poll_err (poll (noTag (6 * Second))) \<in> {None, Some (NfcError ETIMEOUT)}"
    and h6: "poll_count (poll (noTag (6 * Second))) \<le> 0"
    by (simp_all add: noTag_def)
  have h7: "time_Since (now (poll (noTag (6 * Second)))) (ScanTime (activeCard (state cardPresent)))
              > timeToForgetCard"
    by (simp add: c snesCard_def noTag_def time_Since_def timeToForgetCard_def Second_def)
  show ?thesis
    using scan_time_not_refreshed [OF h1 h2 h3 h4 h5 h6 h7, of recordAsText exampleConfig] c
    by simp
qed

lemma tickEffects_cases:
  "tickEffects cfg prt inp s le =
     (case pollDevice prt (poll inp) (activeCard s) of
        (new, err) \<Rightarrow>
          if err \<noteq> None then failSound cfg le (clock inp)
          else if UID new = '''' \<or> UID (activeCard s) = UID new then []
          else playSuccess cfg @ [WriteScanResult (scanResultLine new)]
               @ (if disableLauncher s then []
                  else LaunchCard # (if launch_err inp \<noteq> None
                                     then failSound cfg le (clock inp) else [])))"
  by (auto simp: tickEffects_def pollTick_def errors_Is_def Let_def split: prod.splits option.splits)

lemma failSound_set: "set (failSound cfg le t) \<subseteq> {PlayFail}"
  by (auto simp: failSound_def playFail_def)

lemma count_failSound [simp]:
  "count_list (failSound cfg le t) LaunchCard = 0"
  "count_list (playSuccess cfg) LaunchCard = 0"
  by (simp_all add: failSound_def playFail_def playSuccess_def)

lemma count_launch:
  "count_list (tickEffects cfg prt inp s le) LaunchCard =
     (if newArrival prt inp s \<and> \<not> disableLauncher s then 1 else 0)"
  by (auto simp: tickEffects_cases newArrival_def split: prod.splits)

lemma pollDevice_new_uid:
  "pollDevice prt inp c = (new, None) \<Longrightarrow> UID new \<noteq> '''' \<Longrightarrow> UID new \<noteq> UID c \<Longrightarrow>
     UID new = target_uid inp \<and> 0 < poll_count inp"
  by (auto simp: pollDevice_def emptyCard_def Let_def split: if_splits)

lemma launch_needs_other_uid:
  assumes "LaunchCard \<in> set (tickEffects cfg prt inp s le)"
  shows "\<not> disableLauncher s \<and> 0 < poll_count (poll inp) \<and> target_uid (poll inp) \<noteq> ''''
         \<and> target_uid (poll inp) \<noteq> UID (activeCard s)
         \<and> UID (activeCard (tickState cfg prt inp s le)) = target_uid (poll inp)"
proof -
  have "count_list (tickEffects cfg prt inp s le) LaunchCard \<noteq> 0"
    using assms by (simp add: count_list_0_iff)
  then have n: "newArrival prt inp s" and d: "\<not> disableLauncher s"
    by (simp_all add: count_launch split: if_splits)
  obtain new where p: "pollDevice prt (poll inp) (activeCard s) = (new, None)"
    and u: "UID new \<noteq> ''''" "UID new \<noteq> UID (activeCard s)"
    using n by (auto simp: newArrival_def split: prod.splits)
  have t: "UID new = target_uid (poll inp) \<and> 0 < poll_count (poll inp)"
    using pollDevice_new_uid [OF p u] .
  have "activeCard (tickState cfg prt inp s le) = new"
    using p by (simp add: tickState_def pollTick_def errors_Is_def Let_def SetActiveCard_def)
  then show ?thesis
    using d u t by simp
qed

text \<open>
  C4, as the code has it. A poll that detects the UID of the active card gives
  the active card back unchanged, and the pass does nothing but sleep: through
  any number of such passes the active card stays and no sound, last-scan write
  or launch is added. A pass calls \<open>launchCard\<close> once when it is a new arrival with
  the launcher enabled, and not at all otherwise. A pass that launches has
  detected a non-empty UID that is not the active card's and makes it the active
  card's: a launch for a UID never comes while that UID is the active card's.
\<close>

theorem same_uid_no_relaunch:
  assumes "status sv = Polling" and "\<not> stopService (state sv)"
    and "\<forall>i \<in> set seen.
           poll_err (poll i) \<in> {None, Some (NfcError ETIMEOUT)} \<and> 0 < poll_count (poll i) \<and>
           target_uid (poll i) = UID (activeCard (state sv))"
  shows "(\<forall>i \<in> set seen.
            pollDevice prt (poll i) (activeCard (state sv)) = (activeCard (state sv), None)
            \<and> tickEffects cfg prt i (state sv) le = [])
         \<and> activeCard (state (run cfg prt sv (map Tick seen))) = activeCard (state sv)
         \<and> effects (run cfg prt sv (map Tick seen)) =
             effects sv @ replicate (length seen) (Sleep periodBetweenLoop)
         \<and> (\<forall>inp s. count_list (tickEffects cfg prt inp s le) LaunchCard =
                       (if newArrival prt inp s \<and> \<not> disableLauncher s then 1 else 0))
         \<and> (\<forall>inp s. LaunchCard \<in> set (tickEffects cfg prt inp s le) \<longrightarrow>
               \<not> disableLauncher s \<and> 0 < poll_count (poll inp) \<and> target_uid (poll inp) \<noteq> ''''
               \<and> target_uid (poll inp) \<noteq> UID (activeCard s)
               \<and> UID (activeCard (tickState cfg prt inp s le)) = target_uid (poll inp))"
proof -
  have same: "\<forall>i \<in> set seen.
                pollDevice prt (poll i) (activeCard (state sv)) = (activeCard (state sv), None)"
    using assms(3) by (auto intro!: pollDevice_same)
  then have quiet: "\<forall>i \<in> set seen. tickEffects cfg prt i (state sv) le = []"
    by (simp add: tickEffects_cases)
  have "status (run cfg prt sv (map Tick seen)) = Polling
         \<and> \<not> stopService (state (run cfg prt sv (map Tick seen)))
         \<and> activeCard (state (run cfg prt sv (map Tick seen))) = activeCard (state sv)
         \<and> effects (run cfg prt sv (map Tick seen)) =
             effects sv @ replicate (length seen) (Sleep periodBetweenLoop)"
    using assms by (intro run_quiet) auto
  moreover have "\<forall>inp s. LaunchCard \<in> set (tickEffects cfg prt inp s le) \<longrightarrow>
               \<not> disableLauncher s \<and> 0 < poll_count (poll inp) \<and> target_uid (poll inp) \<noteq> ''''
               \<and> target_uid (poll inp) \<noteq> UID (activeCard s)
               \<and> UID (activeCard (tickState cfg prt inp s le)) = target_uid (poll inp)"
    using launch_needs_other_uid by blast
  ultimately show ?thesis
    using same quiet count_launch by simp
qed

theorem same_uid_no_relaunch_witness:
  "effects (run exampleConfig recordAsText cardPresent
      (map Tick [snesSeen (3 * Second), snesSeen (5700 * Millisecond)]))
     = effects cardPresent @ [Sleep periodBetweenLoop, Sleep periodBetweenLoop]
   \<and> count_list (effects cardPresent) LaunchCard = 1
   \<and> count_list (tickEffects exampleConfig recordAsText (snesSeen (3 * Second)) (state cardPresent) 0)
        LaunchCard = 0
   \<and> LaunchCard \<in> set (tickEffects exampleConfig recordAsText (snesSeen 0) newServiceState 0)
   \<and> target_uid (poll (snesSeen 0)) \<noteq> UID (activeCard newServiceState)
   \<and> UID (activeCard (tickState exampleConfig recordAsText (snesSeen 0) newServiceState 0))
       = ''04a1b2c3d4e580''"
proof -
  have c: "activeCard (state cardPresent) = snesCard"
    by (simp add: cardPresent_eval)
  have h1: "status cardPresent = Polling" and h2: "\<not> stopService (state cardPresent)"
    by (simp_all add: cardPresent_eval newServiceState_def)
  have h3: "\<forall>i \<in> set [snesSeen (3 * Second), snesSeen (5700 * Millisecond)].
              poll_err (poll i) \<in> {None, Some (NfcError ETIMEOUT)} \<and> 0 < poll_count (poll i) \<and>
              target_uid (poll i) = UID (activeCard (state cardPresent))"
    by (simp add: c snesCard_def snesSeen_def tagSeen_def)
  have n: "\<not> newArrival recordAsText (snesSeen (3 * Second)) (state cardPresent)"
    by code_simp
  have l: "count_list (effects cardPresent) LaunchCard = 1"
    by (simp add: cardPresent_eval)
  have a: "LaunchCard \<in> set (tickEffects exampleConfig recordAsText (snesSeen 0) newServiceState 0)"
    by code_simp
  have t: "target_uid (poll (snesSeen 0)) = ''04a1b2c3d4e580''"
    by (simp add: snesSeen_def tagSeen_def)
  note inst = same_uid_no_relaunch [OF h1 h2 h3, where prt = recordAsText and cfg = exampleConfig and le = 0]
  have r: "target_uid (poll (snesSeen 0)) \<noteq> UID (activeCard newServiceState)
           \<and> UID (activeCard (tickState exampleConfig recordAsText (snesSeen 0) newServiceState 0))
               = target_uid (poll (snesSeen 0))"
    using inst a by blast
  have e: "effects (run exampleConfig recordAsText cardPresent
      (map Tick [snesSeen (3 * Second), snesSeen (5700 * Millisecond)]))
     = effects cardPresent @ [Sleep periodBetweenLoop, Sleep periodBetweenLoop]
     \<and> count_list (tickEffects exampleConfig recordAsText (snesSeen (3 * Second)) (state cardPresent) 0)
        LaunchCard = 0"
    using inst n by (simp add: numeral_2_eq_2)
  show ?thesis
    using e l a r t by simp
qed

text \<open>
  The wording of the specification fails twice. An arrival with the launcher
  disabled is stored and launches nothing. And a launch for a UID recurs while
  the card has not been forgotten: the card arrives, then a target whose UID
  cannot be read takes its place as the active card, and 0.6 s after its arrival
  the card is a new arrival again and is launched a second time.
\<close>

theorem launch_count_counterexample:
  "UID (activeCard (state (run exampleConfig recordAsText
          (polling (newServiceState\<lparr>disableLauncher := True\<rparr>)) [Tick (snesSeen 0)])))
     = ''04a1b2c3d4e580''
   \<and> count_list (effects (run exampleConfig recordAsText
          (polling (newServiceState\<lparr>disableLauncher := True\<rparr>)) [Tick (snesSeen 0)])) LaunchCard = 0
   \<and> effects (run exampleConfig recordAsText (polling newServiceState)
        [Tick (snesSeen 0),
         Tick (tagSeen '''' (TypeOther '''') ([], None) (300 * Millisecond)),
         Tick (snesSeen (600 * Millisecond))])
     = [PlaySuccess, WriteScanResult ''04a1b2c3d4e580,system:snes'', LaunchCard,
        Sleep periodBetweenLoop, Sleep periodBetweenLoop,
        PlaySuccess, WriteScanResult ''04a1b2c3d4e580,system:snes'', LaunchCard,
        Sleep periodBetweenLoop]"
  by code_simp

text \<open>
  C3, as the code has it. The time that decides forgetting is the active card's
  \<open>ScanTime\<close>, which is the time of its arrival: a poll that returns no tag (and no
  error but a timeout) clears the active card exactly when its UID is non-empty
  and more than \<open>timeToForgetCard\<close> has passed since \<open>ScanTime\<close>, and gives it back
  unchanged otherwise. So through any passes that return no tag or re-see the
  card, none later than \<open>timeToForgetCard\<close> after the arrival, the active card stays.
\<close>

theorem active_card_kept_until_forget_time:
  assumes "status sv = Polling" and "\<not> stopService (state sv)"
    and "\<forall>i \<in> set ticks.
           poll_err (poll i) \<in> {None, Some (NfcError ETIMEOUT)} \<and>
           ((poll_count (poll i) \<le> 0
               \<and> time_Since (now (poll i)) (ScanTime (activeCard (state sv))) \<le> timeToForgetCard)
            \<or> (0 < poll_count (poll i) \<and> target_uid (poll i) = UID (activeCard (state sv))))"
  shows "activeCard (state (run cfg prt sv (map Tick ticks))) = activeCard (state sv)
         \<and> (\<forall>inp c. poll_err inp \<in> {None, Some (NfcError ETIMEOUT)} \<and> poll_count inp \<le> 0 \<longrightarrow>
                pollDevice prt inp c =
                  (if UID c \<noteq> '''' \<and> time_Since (now inp) (ScanTime c) > timeToForgetCard
                   then emptyCard else c, None))"
proof -
  have "status (run cfg prt sv (map Tick ticks)) = Polling
         \<and> \<not> stopService (state (run cfg prt sv (map Tick ticks)))
         \<and> activeCard (state (run cfg prt sv (map Tick ticks))) = activeCard (state sv)
         \<and> effects (run cfg prt sv (map Tick ticks)) =
             effects sv @ replicate (length ticks) (Sleep periodBetweenLoop)"
    using assms by (rule run_quiet)
  moreover have "\<forall>inp c. poll_err inp \<in> {None, Some (NfcError ETIMEOUT)} \<and> poll_count inp \<le> 0 \<longrightarrow>
                pollDevice prt inp c =
                  (if UID c \<noteq> '''' \<and> time_Since (now inp) (ScanTime c) > timeToForgetCard
                   then emptyCard else c, None)"
    using pollDevice_nothing by blast
  ultimately show ?thesis by blast
qed

theorem active_card_kept_until_forget_time_witness:
  "activeCard (state cardPresent) = snesCard
   \<and> activeCard (state (run exampleConfig recordAsText cardPresent
        (map Tick [noTag (300 * Millisecond), snesSeen (600 * Millisecond),
                   noTag (4800 * Millisecond)]))) = snesCard
   \<and> pollDevice recordAsText (poll (noTag (5 * Second))) snesCard = (snesCard, None)
   \<and> pollDevice recordAsText (poll (noTag (5 * Second + 1))) snesCard = (emptyCard, None)"
proof -
  have c: "activeCard (state cardPresent) = snesCard"
    by (simp add: cardPresent_eval)
  have h1: "status cardPresent = Polling" and h2: "\<not> stopService (state cardPresent)"
    by (simp_all add: cardPresent_eval newServiceState_def)
  have h3: "\<forall>i \<in> set [noTag (300 * Millisecond), snesSeen (600 * Millisecond),
                        noTag (4800 * Millisecond)].
           poll_err (poll i) \<in> {None, Some (NfcError ETIMEOUT)} \<and>
           ((poll_count (poll i) \<le> 0
               \<and> time_Since (now (poll i)) (ScanTime (activeCard (state cardPresent)))
                    \<le> timeToForgetCard)
            \<or> (0 < poll_count (poll i)
                \<and> target_uid (poll i) = UID (activeCard (state cardPresent))))"
    by (simp add: c snesCard_def snesSeen_def tagSeen_def noTag_def time_Since_def
        timeToForgetCard_def Second_def Millisecond_def)
  have n: "poll_err (poll (noTag t)) \<in> {None, Some (NfcError ETIMEOUT)} \<and> poll_count (poll (noTag t)) \<le> 0"
    for t by (simp add: noTag_def)
  have t: "now (poll (noTag t)) = t" for t
    by (simp add: noTag_def)
  note inst = active_card_kept_until_forget_time [OF h1 h2 h3, where prt = recordAsText and cfg = exampleConfig]
  have a: "activeCard (state (run exampleConfig recordAsText cardPresent
        (map Tick [noTag (300 * Millisecond), snesSeen (600 * Millisecond),
                   noTag (4800 * Millisecond)]))) = snesCard"
    using inst c by simp
  have p: "pollDevice recordAsText (poll (noTag u)) snesCard =
             (if UID snesCard \<noteq> '''' \<and> time_Since (now (poll (noTag u))) (ScanTime snesCard) > timeToForgetCard
              then emptyCard else snesCard, None)" for u
    using inst n [of u] by blast
  show ?thesis
    using c a p [of "5 * Second"] p [of "5 * Second + 1"]
    by (simp add: t snesCard_def time_Since_def timeToForgetCard_def Second_def)
qed

text \<open>
  The wording of the specification fails here: the card arrives at 0 and is seen again at 5.7 s;
  the poll at 6.0 s returns no tag, and the active card is cleared 0.3 s after the
  card was last seen.
\<close>

theorem forget_counts_from_last_sighting_counterexample:
  "UID (activeCard (state (run exampleConfig recordAsText cardPresent
          [Tick (snesSeen (5700 * Millisecond))]))) = ''04a1b2c3d4e580''
   \<and> time_Since (now (poll (noTag (6 * Second)))) (now (poll (snesSeen (5700 * Millisecond))))
        < timeToForgetCard
   \<and> UID (activeCard (state (run exampleConfig recordAsText cardPresent
          [Tick (snesSeen (5700 * Millisecond)), Tick (noTag (6 * Second))]))) = ''''"
  by code_simp


lemma tickState_cases:
  "tickState cfg prt inp s le =
     (case pollDevice prt (poll inp) (activeCard s) of
        (new, err) \<Rightarrow> if err \<noteq> None then s else SetActiveCard s new)"
  by (auto simp: tickState_def pollTick_def errors_Is_def Let_def split: prod.splits option.splits)

text \<open>
  C5, as the code has it. A tag whose UID is not the active card's makes a new
  card whenever reading it does not fail on an NTAG: a card of a type that is
  neither NTAG nor Mifare gets the text \<open>ParseRecordText\<close> makes of the empty record,
  a Mifare card the text of whatever \<open>readMifare\<close> returned even with an error, and
  no error is returned. The pass stores the card as active card, and as last
  scanned when its UID is not empty. When \<open>readNtag\<close> fails, \<open>pollDevice\<close> returns
  the error and the active card, and the pass stores nothing.
\<close>

theorem unreadable_card_arrival:
  assumes "poll_err (poll inp) \<in> {None, Some (NfcError ETIMEOUT)}"
    and "0 < poll_count (poll inp)"
    and "target_uid (poll inp) \<noteq> UID (activeCard s)"
  shows "(\<not> (target_type (poll inp) = TypeNTAG \<and> snd (ntag_read (poll inp)) \<noteq> None) \<longrightarrow>
            (let rec = (if target_type (poll inp) = TypeNTAG then fst (ntag_read (poll inp))
                        else if target_type (poll inp) = TypeMifare then fst (mifare_read (poll inp))
                        else []);
                 new = \<lparr>CardType = target_type (poll inp), UID = target_uid (poll inp),
                         Text = prt rec, ScanTime = now (poll inp)\<rparr>
             in pollDevice prt (poll inp) (activeCard s) = (new, None)
                \<and> activeCard (tickState cfg prt inp s le) = new
                \<and> (target_uid (poll inp) \<noteq> '''' \<longrightarrow> lastScanned (tickState cfg prt inp s le) = new)))
         \<and> (target_type (poll inp) = TypeNTAG \<and> snd (ntag_read (poll inp)) \<noteq> None \<longrightarrow>
              pollDevice prt (poll inp) (activeCard s) =
                (activeCard s, Some (Errorf ''error reading ntag: %s'' (the (snd (ntag_read (poll inp))))))
              \<and> tickState cfg prt inp s le = s)"
proof (intro conjI impI)
  assume ok: "\<not> (target_type (poll inp) = TypeNTAG \<and> snd (ntag_read (poll inp)) \<noteq> None)"
  show "let rec = (if target_type (poll inp) = TypeNTAG then fst (ntag_read (poll inp))
                   else if target_type (poll inp) = TypeMifare then fst (mifare_read (poll inp))
                   else []);
            new = \<lparr>CardType = target_type (poll inp), UID = target_uid (poll inp),
                    Text = prt rec, ScanTime = now (poll inp)\<rparr>
        in pollDevice prt (poll inp) (activeCard s) = (new, None)
           \<and> activeCard (tickState cfg prt inp s le) = new
           \<and> (target_uid (poll inp) \<noteq> '''' \<longrightarrow> lastScanned (tickState cfg prt inp s le) = new)"
    using pollDevice_arrival [OF assms ok, of prt]
    by (simp add: Let_def tickState_cases SetActiveCard_def)
next
  assume bad: "target_type (poll inp) = TypeNTAG \<and> snd (ntag_read (poll inp)) \<noteq> None"
  then obtain e where e: "snd (ntag_read (poll inp)) = Some e" by auto
  have p: "pollDevice prt (poll inp) (activeCard s) =
             (activeCard s, Some (Errorf ''error reading ntag: %s'' e))"
    using pollDevice_ntag_failed [OF assms _ e] bad by simp
  show "pollDevice prt (poll inp) (activeCard s) =
          (activeCard s, Some (Errorf ''error reading ntag: %s'' (the (snd (ntag_read (poll inp))))))"
    using p e by simp
  show "tickState cfg prt inp s le = s"
    using p by (simp add: tickState_cases)
qed

theorem unreadable_card_arrival_witness:
  "pollDevice recordAsText (poll (tagSeen ''deadbeef'' (TypeOther ''unknown'') ([], None) 7)) emptyCard
     = (\<lparr>CardType = TypeOther ''unknown'', UID = ''deadbeef'', Text = '''', ScanTime = 7\<rparr>, None)
   \<and> lastScanned (tickState exampleConfig recordAsText
        (tagSeen ''deadbeef'' (TypeOther ''unknown'') ([], None) 7) newServiceState 0)
     = \<lparr>CardType = TypeOther ''unknown'', UID = ''deadbeef'', Text = '''', ScanTime = 7\<rparr>
   \<and> pollDevice recordAsText
        (poll (tagSeen ''deadbeef'' TypeMifare ([], Some (NfcError (ENFC (- 30)))) 7)) emptyCard
     = (\<lparr>CardType = TypeMifare, UID = ''deadbeef'', Text = '''', ScanTime = 7\<rparr>, None)
   \<and> tickState exampleConfig recordAsText
        (tagSeen ''deadbeef'' TypeNTAG ([], Some (NfcError (ENFC (- 20)))) 7) newServiceState 0
     = newServiceState"
proof -
  have h: "poll_err (poll (tagSeen ''deadbeef'' ty rd 7)) \<in> {None, Some (NfcError ETIMEOUT)}"
    "0 < poll_count (poll (tagSeen ''deadbeef'' ty rd 7))"
    "target_uid (poll (tagSeen ''deadbeef'' ty rd 7)) \<noteq> UID (activeCard newServiceState)"
    for ty rd
    by (simp_all add: tagSeen_def newServiceState_def emptyCard_def)
  have a: "activeCard newServiceState = emptyCard"
    by (simp add: newServiceState_def)
  show ?thesis
    using unreadable_card_arrival [OF h, where prt = recordAsText and cfg = exampleConfig and le = 0,
        of "TypeOther ''unknown''" "([], None)"]
      unreadable_card_arrival [OF h, where prt = recordAsText and cfg = exampleConfig and le = 0,
        of TypeMifare "([], Some (NfcError (ENFC (- 30))))"]
      unreadable_card_arrival [OF h, where prt = recordAsText and cfg = exampleConfig and le = 0,
        of TypeNTAG "([], Some (NfcError (ENFC (- 20))))"]
    by (simp add: a tagSeen_def recordAsText_def Let_def)
qed

text \<open>
  The wording of the specification fails where an NTAG cannot be read: the tag is no
  arrival, \<open>pollDevice\<close> returns an error and neither card of the state changes.
\<close>

theorem ntag_read_failure_counterexample:
  "pollDevice recordAsText
     (poll (tagSeen ''04a1b2c3d4e580'' TypeNTAG ([], Some (NfcError (ENFC (- 20)))) 7)) emptyCard
     = (emptyCard, Some (Errorf ''error reading ntag: %s'' (NfcError (ENFC (- 20)))))
   \<and> state (run exampleConfig recordAsText (polling newServiceState)
        [Tick (tagSeen ''04a1b2c3d4e580'' TypeNTAG ([], Some (NfcError (ENFC (- 20)))) 7)])
     = newServiceState
   \<and> activeCard newServiceState = emptyCard \<and> lastScanned newServiceState = emptyCard"
  by code_simp

lemma newArrival_tickState:
  "newArrival prt inp s \<Longrightarrow>
     tickState cfg prt inp s le =
       s\<lparr>activeCard := fst (pollDevice prt (poll inp) (activeCard s)),
         lastScanned := fst (pollDevice prt (poll inp) (activeCard s))\<rparr>"
  by (auto simp: newArrival_def tickState_cases SetActiveCard_def split: prod.splits)

lemma tickEffects_no_arrival:
  "\<not> newArrival prt inp s \<Longrightarrow> set (tickEffects cfg prt inp s le) \<subseteq> {PlayFail}"
  using failSound_set [of cfg le "clock inp"]
  by (auto simp: newArrival_def tickEffects_cases split: prod.splits)

text \<open>
  C1, as the code has it. Of the effects of a new arrival only the launch waits
  for the launcher flag. With \<open>launcher_disabled\<close> set, the pass makes the new card
  the active and the last scanned card, plays the success sound (unless sounds
  are off) and writes the last-scan file, and does not call \<open>launchCard\<close>. With the
  flag clear it does the same and then calls \<open>launchCard\<close>. A pass that is no new
  arrival plays no success sound, writes no last-scan file and launches nothing.
\<close>

theorem disabled_launcher_skips_only_launch:
  assumes "newArrival prt inp s"
  shows "(let new = fst (pollDevice prt (poll inp) (activeCard s)) in
            activeCard (tickState cfg prt inp s le) = new
            \<and> lastScanned (tickState cfg prt inp s le) = new
            \<and> (disableLauncher s \<longrightarrow>
                 tickEffects cfg prt inp s le =
                   playSuccess cfg @ [WriteScanResult (scanResultLine new)])
            \<and> (\<not> disableLauncher s \<longrightarrow>
                 take (length (playSuccess cfg) + 2) (tickEffects cfg prt inp s le) =
                   playSuccess cfg @ [WriteScanResult (scanResultLine new), LaunchCard]))
         \<and> (\<forall>inp' s'. \<not> newArrival prt inp' s' \<longrightarrow>
               set (tickEffects cfg prt inp' s' le) \<subseteq> {PlayFail})
         \<and> (\<forall>inp' s'. LaunchCard \<in> set (tickEffects cfg prt inp' s' le) \<longrightarrow>
               newArrival prt inp' s' \<and> \<not> disableLauncher s')"
proof -
  have launch: "\<forall>inp' s'. LaunchCard \<in> set (tickEffects cfg prt inp' s' le) \<longrightarrow>
               newArrival prt inp' s' \<and> \<not> disableLauncher s'"
  proof (intro allI impI)
    fix inp' s'
    assume "LaunchCard \<in> set (tickEffects cfg prt inp' s' le)"
    then have "count_list (tickEffects cfg prt inp' s' le) LaunchCard \<noteq> 0"
      by (simp add: count_list_0_iff)
    then show "newArrival prt inp' s' \<and> \<not> disableLauncher s'"
      by (simp add: count_launch split: if_splits)
  qed
  have fx: "tickEffects cfg prt inp s le =
              playSuccess cfg @ [WriteScanResult (scanResultLine (fst (pollDevice prt (poll inp) (activeCard s))))]
              @ (if disableLauncher s then []
                 else LaunchCard # (if launch_err inp \<noteq> None
                                    then failSound cfg le (clock inp) else []))"
    using assms by (auto simp: newArrival_def tickEffects_cases split: prod.splits)
  show ?thesis
    using newArrival_tickState [OF assms, of cfg le] tickEffects_no_arrival [of prt _ _ cfg le]
      launch fx
    by (simp add: Let_def)
qed

theorem disabled_launcher_skips_only_launch_witness:
  "newArrival recordAsText (snesSeen 0) (newServiceState\<lparr>disableLauncher := True\<rparr>)
   \<and> tickState exampleConfig recordAsText (snesSeen 0) (newServiceState\<lparr>disableLauncher := True\<rparr>) 0
       = newServiceState\<lparr>disableLauncher := True, activeCard := snesCard, lastScanned := snesCard\<rparr>
   \<and> tickEffects exampleConfig recordAsText (snesSeen 0) (newServiceState\<lparr>disableLauncher := True\<rparr>) 0
       = [PlaySuccess, WriteScanResult ''04a1b2c3d4e580,system:snes'']
   \<and> LaunchCard \<notin> set (tickEffects exampleConfig recordAsText (snesSeen (3 * Second))
                           (state cardPresent) 0)"
proof -
  let ?s = "newServiceState\<lparr>disableLauncher := True\<rparr>"
  have h: "newArrival recordAsText (snesSeen 0) ?s"
    by code_simp
  have n: "\<not> newArrival recordAsText (snesSeen (3 * Second)) (state cardPresent)"
    by code_simp
  have e: "tickState exampleConfig recordAsText (snesSeen 0) ?s 0
             = newServiceState\<lparr>disableLauncher := True, activeCard := snesCard, lastScanned := snesCard\<rparr>"
    by code_simp
  have p: "fst (pollDevice recordAsText (poll (snesSeen 0)) (activeCard ?s)) = snesCard"
    by code_simp
  have d: "disableLauncher ?s" by simp
  note inst = disabled_launcher_skips_only_launch [OF h, where cfg = exampleConfig and le = 0]
  have "tickEffects exampleConfig recordAsText (snesSeen 0) ?s 0
          = playSuccess exampleConfig @ [WriteScanResult (scanResultLine snesCard)]"
    using inst d unfolding Let_def p by blast
  moreover have "LaunchCard \<notin> set (tickEffects exampleConfig recordAsText (snesSeen (3 * Second))
                           (state cardPresent) 0)"
    using inst n by blast
  ultimately show ?thesis
    using h e by (simp add: playSuccess_def exampleConfig_def scanResultLine_def snesCard_def)
qed

text \<open>
  The wording of the specification fails here: with the launcher disabled, a new arrival still
  plays the success sound and writes the last-scan file; only the launch is
  skipped.
\<close>

theorem disabled_arrival_sound_and_file_counterexample:
  "disableLauncher (state (run exampleConfig recordAsText (polling newServiceState)
        [Socket (Inr ''disable'')]))
   \<and> effects (run exampleConfig recordAsText (polling newServiceState)
        [Socket (Inr ''disable''), Tick (snesSeen 0)])
     = [CreateDisabledFile, SocketWrite '''',
        PlaySuccess, WriteScanResult ''04a1b2c3d4e580,system:snes'', Sleep periodBetweenLoop]"
  by code_simp

section \<open>Properties of the poll goroutine as a whole\<close>

lemma connect_cases: "connect cfg env ie \<in> {Polling, OpenFailed, InitFailed}"
  by (simp add: connect_def split: sum.splits)

lemma pollTick_Reconnect:
  "fst (pollTick cfg prt inp s le) = Reconnect \<Longrightarrow> poll_err (poll inp) = Some (NfcError EIO)"
  by (auto simp: pollTick_def pollDevice_def errors_Is_def Let_def
      split: prod.splits option.splits if_splits)

lemma pollTick_stopService:
  "stopService (fst (snd (pollTick cfg prt inp s le))) = stopService s"
  by (auto simp: pollTick_def errors_Is_def Let_def split: prod.splits option.splits)

lemma handleConn_stopService:
  "stopService (fst (handleConn s rd)) = stopService s"
  by (simp add: handleConn_def DisableLauncher_def EnableLauncher_def Let_def split: sum.splits)

text \<open>The stop flag is never taken back.\<close>

lemma step_stopService:
  "stopService (state sv) \<Longrightarrow> stopService (state (step cfg prt sv e))"
proof (cases e)
  case (Tick inp)
  assume "stopService (state sv)"
  then show ?thesis using Tick by simp
next
  case (Socket rd)
  assume "stopService (state sv)"
  then show ?thesis using Socket by simp
next
  case StopRequest
  then show ?thesis by (simp add: StopService_def)
qed

text \<open>
  How one event moves the status of the poll goroutine: it leaves \<open>Polling\<close> only
  at a pass that finds the stop flag set, or at a pass whose poll fails with EIO
  and whose reconnect does not come back.
\<close>

lemma step_status:
  "status (step cfg prt sv e) = status sv
   \<or> (status sv = Polling \<and> status (step cfg prt sv e) = Stopped \<and> stopService (state sv))
   \<or> (status sv = Polling \<and>
       (\<exists>inp. e = Tick inp \<and> poll_err (poll inp) = Some (NfcError EIO)
              \<and> status (step cfg prt sv e) = connect cfg (reopen inp) (init_err inp)))"
proof (cases e)
  case (Tick inp)
  show ?thesis
  proof (cases "status sv = Polling \<and> \<not> stopService (state sv)")
    case False
    then show ?thesis using Tick by auto
  next
    case True
    obtain ex s1 le fx where p: "pollTick cfg prt inp (state sv) (lastError sv) = (ex, s1, le, fx)"
      by (metis prod_cases4)
    show ?thesis
    proof (cases ex)
      case End
      then show ?thesis using Tick True p by simp
    next
      case Reconnect
      then have "poll_err (poll inp) = Some (NfcError EIO)"
        using p pollTick_Reconnect [of cfg prt inp "state sv" "lastError sv"] by simp
      then show ?thesis using Tick True p Reconnect by simp
    qed
  qed
next
  case (Socket rd)
  then show ?thesis by (simp split: prod.splits)
next
  case StopRequest
  then show ?thesis by simp
qed

lemma run_snoc: "run cfg prt sv (es @ [e]) = step cfg prt (run cfg prt sv es) e"
  by (simp add: run_append)

lemma run_stopService:
  "stopService (state (run cfg prt sv es)) \<Longrightarrow> stopService (state sv) \<or> StopRequest \<in> set es"
proof (induction es rule: rev_induct)
  case Nil
  then show ?case by simp
next
  case (snoc e es)
  let ?r = "run cfg prt sv es"
  show ?case
  proof (cases e)
    case (Tick inp)
    have "stopService (state (step cfg prt ?r (Tick inp))) = stopService (state ?r)"
      using pollTick_stopService [of cfg prt inp "state ?r" "lastError ?r"]
      by (auto split: prod.splits tick_exit.splits)
    then show ?thesis using snoc Tick by (simp add: run_snoc)
  next
    case (Socket rd)
    have "stopService (state (step cfg prt ?r (Socket rd))) = stopService (state ?r)"
      using handleConn_stopService [of "state ?r" rd] by (auto split: prod.splits)
    then show ?thesis using snoc Socket by (simp add: run_snoc)
  next
    case StopRequest
    then show ?thesis by simp
  qed
qed

lemma run_status:
  assumes "status sv = Polling"
  shows "status (run cfg prt sv es) = Polling
         \<or> (status (run cfg prt sv es) = Stopped \<and> stopService (state (run cfg prt sv es)))
         \<or> (status (run cfg prt sv es) \<in> {OpenFailed, InitFailed} \<and>
             (\<exists>inp. Tick inp \<in> set es \<and> poll_err (poll inp) = Some (NfcError EIO)
                    \<and> connect cfg (reopen inp) (init_err inp) = status (run cfg prt sv es)))"
proof (induction es rule: rev_induct)
  case Nil
  then show ?case using assms by simp
next
  case (snoc e es)
  let ?r = "run cfg prt sv es"
  let ?r' = "step cfg prt ?r e"
  consider (same) "status ?r' = status ?r"
    | (stop) "status ?r = Polling" "status ?r' = Stopped" "stopService (state ?r)"
    | (reconn) inp where "status ?r = Polling" "e = Tick inp"
        "poll_err (poll inp) = Some (NfcError EIO)"
        "status ?r' = connect cfg (reopen inp) (init_err inp)"
    using step_status [of cfg prt ?r e] by blast
  then show ?case
  proof cases
    case same
    have "stopService (state ?r) \<Longrightarrow> stopService (state ?r')"
      by (rule step_stopService)
    then show ?thesis using snoc same by (auto simp: run_snoc)
  next
    case stop
    then show ?thesis using step_stopService [of ?r cfg prt e] by (simp add: run_snoc)
  next
    case reconn
    then show ?thesis using connect_cases [of cfg "reopen inp" "init_err inp"]
      by (auto simp: run_snoc)
  qed
qed


lemma retryLoop_present: "retryLoop readerPresent cs k 0 = (Inr 0, Suc k)"
  by (subst retryLoop.simps) (simp add: readerPresent_def)

lemma connect_present: "connect exampleConfig readerPresent None = Polling"
  by (simp add: connect_def openDeviceWithRetries_def exampleConfig_def retryLoop_present)

lemma step_after_exit:
  "status sv \<noteq> Polling \<Longrightarrow> step cfg prt sv (Tick inp) = sv"
  by simp

lemma step_status_after_exit:
  "status sv \<noteq> Polling \<Longrightarrow> status (step cfg prt sv e) = status sv"
  using step_status [of cfg prt sv e] by auto

lemma run_status_after_exit:
  "status sv \<noteq> Polling \<Longrightarrow> status (run cfg prt sv es) = status sv"
proof (induction es arbitrary: sv)
  case Nil
  then show ?case by simp
next
  case (Cons e es)
  have "status (step cfg prt sv e) = status sv"
    using Cons.prems by (rule step_status_after_exit)
  then show ?case using Cons by simp
qed

lemma run_ticks_after_exit:
  "status sv \<noteq> Polling \<Longrightarrow> run cfg prt sv (map Tick ticks) = sv"
  by (induction ticks) simp_all

text \<open>The pass that finds the stop flag set, and the pass whose poll fails with EIO.\<close>

lemma step_stop:
  "status sv = Polling \<Longrightarrow> stopService (state sv) \<Longrightarrow>
     step cfg prt sv (Tick inp) = sv\<lparr>status := Stopped\<rparr>"
  by simp

lemma pollTick_eio:
  "poll_err (poll inp) = Some (NfcError EIO) \<Longrightarrow>
     pollTick cfg prt inp s le = (Reconnect, s, le, failSound cfg le (clock inp))"
  by (simp add: pollTick_def pollDevice_failed errors_Is_def)

lemma step_eio:
  "status sv = Polling \<Longrightarrow> \<not> stopService (state sv) \<Longrightarrow>
     poll_err (poll inp) = Some (NfcError EIO) \<Longrightarrow>
     step cfg prt sv (Tick inp) =
       sv\<lparr>state := state sv, status := connect cfg (reopen inp) (init_err inp),
          lastError := zeroTime,
          effects := effects sv @ failSound cfg (lastError sv) (clock inp)\<rparr>"
  by (simp add: pollTick_eio)

lemma connect_OpenFailed:
  "connect cfg env ie = OpenFailed \<longleftrightarrow> (\<exists>e. fst (openDeviceWithRetries cfg env) = Inl e)"
  by (auto simp: connect_def split: sum.splits)

lemma connect_InitFailed:
  "connect cfg env ie = InitFailed \<longleftrightarrow>
     (\<exists>pnd. fst (openDeviceWithRetries cfg env) = Inr pnd) \<and> ie \<noteq> None"
  by (auto simp: connect_def split: sum.splits)

lemma open_never:
  assumes "\<forall>k s. \<exists>e. nfc_Open env k s = Inl e"
  shows "\<exists>e. fst (openDeviceWithRetries cfg env) = Inl e"
proof -
  define err where "err = (\<lambda>k s. case nfc_Open env k s of Inl e \<Rightarrow> e)"
  have f: "\<forall>k s. nfc_Open env k s = Inl (err k s)"
  proof (intro allI)
    fix k s
    obtain e where "nfc_Open env k s = Inl e" using assms by blast
    then show "nfc_Open env k s = Inl (err k s)" by (simp add: err_def)
  qed
  have r: "\<And>cs k. retryLoop env cs k 0 =
             (Inl (err (k + nat connectMaxTries) cs), Suc (k + nat connectMaxTries))"
    using retryLoop_all_fail [OF f, of 0] by (simp add: connectMaxTries_def)
  show ?thesis
    by (simp add: openDeviceWithRetries_def detectConnectionString_def
        detectLoop_all_fail [OF f] r Let_def)
qed


text \<open>
  C2, as the code has it. The poll goroutine leaves its loop when it finds the
  stop flag set, and also when a reconnect fails: after a poll error EIO it runs
  \<open>openDeviceWithRetries\<close> and \<open>InitiatorInit\<close> again, goes on polling when both
  succeed, and returns for good when the device does not open within the retries
  or does not initialise: the status stays what the reconnect made it whatever
  comes later, and later passes do nothing. Nothing else ends it: as long as the
  stop flag stays clear and every reconnect comes back, it is still polling after
  any number of disconnects.
\<close>

theorem poll_loop_ends_on_stop_or_failed_reconnect:
  assumes "status sv = Polling"
  shows "(status (run cfg prt sv evs) = Polling
          \<or> (status (run cfg prt sv evs) = Stopped \<and> stopService (state (run cfg prt sv evs)))
          \<or> (status (run cfg prt sv evs) \<in> {OpenFailed, InitFailed} \<and>
              (\<exists>inp. Tick inp \<in> set evs \<and> poll_err (poll inp) = Some (NfcError EIO)
                     \<and> connect cfg (reopen inp) (init_err inp) = status (run cfg prt sv evs))))
         \<and> (\<not> stopService (state sv) \<and> StopRequest \<notin> set evs
             \<and> (\<forall>inp. Tick inp \<in> set evs \<and> poll_err (poll inp) = Some (NfcError EIO)
                      \<longrightarrow> connect cfg (reopen inp) (init_err inp) = Polling)
             \<longrightarrow> status (run cfg prt sv evs) = Polling)
         \<and> (\<forall>pre inp post.
               status (run cfg prt sv pre) = Polling \<and> \<not> stopService (state (run cfg prt sv pre))
               \<and> poll_err (poll inp) = Some (NfcError EIO) \<longrightarrow>
                 status (run cfg prt sv (pre @ [Tick inp])) = connect cfg (reopen inp) (init_err inp)
                 \<and> (connect cfg (reopen inp) (init_err inp) \<noteq> Polling \<longrightarrow>
                      status (run cfg prt sv (pre @ Tick inp # post))
                        = connect cfg (reopen inp) (init_err inp)
                      \<and> (\<forall>ticks. run cfg prt sv (pre @ Tick inp # map Tick ticks)
                                    = run cfg prt sv (pre @ [Tick inp]))))
         \<and> (\<forall>pre inp post.
               status (run cfg prt sv pre) = Polling \<and> stopService (state (run cfg prt sv pre)) \<longrightarrow>
                 status (run cfg prt sv (pre @ Tick inp # post)) = Stopped)
         \<and> (\<forall>env ie.
               (connect cfg env ie = OpenFailed \<longleftrightarrow>
                  (\<exists>e. fst (openDeviceWithRetries cfg env) = Inl e))
               \<and> (connect cfg env ie = InitFailed \<longleftrightarrow>
                    (\<exists>pnd. fst (openDeviceWithRetries cfg env) = Inr pnd) \<and> ie \<noteq> None)
               \<and> ((\<forall>k s. \<exists>e. nfc_Open env k s = Inl e) \<longrightarrow> connect cfg env ie = OpenFailed))"
proof -
  let ?r = "run cfg prt sv evs"
  have a: "status ?r = Polling
          \<or> (status ?r = Stopped \<and> stopService (state ?r))
          \<or> (status ?r \<in> {OpenFailed, InitFailed} \<and>
              (\<exists>inp. Tick inp \<in> set evs \<and> poll_err (poll inp) = Some (NfcError EIO)
                     \<and> connect cfg (reopen inp) (init_err inp) = status ?r))"
    using assms by (rule run_status)
  have b: "status ?r = Polling"
    if h: "\<not> stopService (state sv)" "StopRequest \<notin> set evs"
      "\<forall>inp. Tick inp \<in> set evs \<and> poll_err (poll inp) = Some (NfcError EIO)
             \<longrightarrow> connect cfg (reopen inp) (init_err inp) = Polling"
  proof -
    have "\<not> stopService (state ?r)"
      using run_stopService [of cfg prt sv evs] h(1,2) by blast
    moreover have "\<not> (status ?r \<in> {OpenFailed, InitFailed} \<and>
              (\<exists>inp. Tick inp \<in> set evs \<and> poll_err (poll inp) = Some (NfcError EIO)
                     \<and> connect cfg (reopen inp) (init_err inp) = status ?r))"
      using h(3) by auto
    ultimately show ?thesis using a by blast
  qed
  have c: "status (run cfg prt sv (pre @ [Tick inp])) = connect cfg (reopen inp) (init_err inp)
           \<and> (connect cfg (reopen inp) (init_err inp) \<noteq> Polling \<longrightarrow>
                status (run cfg prt sv (pre @ Tick inp # post))
                  = connect cfg (reopen inp) (init_err inp)
                \<and> (\<forall>ticks. run cfg prt sv (pre @ Tick inp # map Tick ticks)
                              = run cfg prt sv (pre @ [Tick inp])))"
    if h: "status (run cfg prt sv pre) = Polling" "\<not> stopService (state (run cfg prt sv pre))"
      "poll_err (poll inp) = Some (NfcError EIO)"
    for pre inp post
  proof -
    let ?p = "run cfg prt sv pre"
    let ?q = "step cfg prt ?p (Tick inp)"
    have q: "status ?q = connect cfg (reopen inp) (init_err inp)"
      using step_eio [OF h, of cfg prt] by simp
    have r1: "run cfg prt sv (pre @ [Tick inp]) = ?q"
      by (simp add: run_append)
    have r2: "run cfg prt sv (pre @ Tick inp # es) = run cfg prt ?q es" for es
      by (simp add: run_append)
    show ?thesis
      using q run_status_after_exit [of ?q cfg prt post] run_ticks_after_exit [of ?q cfg prt]
      by (simp add: r1 r2)
  qed
  have d: "status (run cfg prt sv (pre @ Tick inp # post)) = Stopped"
    if h: "status (run cfg prt sv pre) = Polling" "stopService (state (run cfg prt sv pre))"
    for pre inp post
  proof -
    let ?p = "run cfg prt sv pre"
    let ?q = "step cfg prt ?p (Tick inp)"
    have q: "status ?q = Stopped"
      using step_stop [OF h, of cfg prt inp] by simp
    have "run cfg prt sv (pre @ Tick inp # post) = run cfg prt ?q post"
      by (simp add: run_append)
    then show ?thesis
      using q run_status_after_exit [of ?q cfg prt post] by simp
  qed
  have e: "(connect cfg env ie = OpenFailed \<longleftrightarrow>
                  (\<exists>e. fst (openDeviceWithRetries cfg env) = Inl e))
               \<and> (connect cfg env ie = InitFailed \<longleftrightarrow>
                    (\<exists>pnd. fst (openDeviceWithRetries cfg env) = Inr pnd) \<and> ie \<noteq> None)
               \<and> ((\<forall>k s. \<exists>e. nfc_Open env k s = Inl e) \<longrightarrow> connect cfg env ie = OpenFailed)"
    for env ie
    using connect_OpenFailed [of cfg env ie] connect_InitFailed [of cfg env ie]
      open_never [of env cfg]
    by blast
  show ?thesis
    using a b c d e by blast
qed


theorem poll_loop_ends_on_stop_or_failed_reconnect_witness:
  "status (run exampleConfig recordAsText (polling newServiceState)
      [Tick (unplugged readerPresent 0), Tick (unplugged readerPresent Second),
       Tick (snesSeen (2 * Second))]) = Polling
   \<and> UID (activeCard (state (run exampleConfig recordAsText (polling newServiceState)
      [Tick (unplugged readerPresent 0), Tick (unplugged readerPresent Second),
       Tick (snesSeen (2 * Second))]))) = ''04a1b2c3d4e580''
   \<and> status (run exampleConfig recordAsText (polling newServiceState)
      ([] @ Tick (unplugged readerAbsent 0) # [Tick (snesSeen Second), Socket (Inr ''status'')]))
       = OpenFailed
   \<and> status (run exampleConfig recordAsText (polling newServiceState)
      ([] @ Tick ((unplugged readerPresent 0)\<lparr>init_err := Some (OtherError ''init'')\<rparr>)
          # [Tick (snesSeen Second)]))
       = InitFailed
   \<and> status (run exampleConfig recordAsText (polling newServiceState)
      ([StopRequest] @ Tick (snesSeen 0) # [Tick (snesSeen Second)])) = Stopped"
proof -
  let ?sv = "polling newServiceState"
  let ?evs = "[Tick (unplugged readerPresent 0), Tick (unplugged readerPresent Second),
       Tick (snesSeen (2 * Second))]"
  let ?bad = "(unplugged readerPresent 0)\<lparr>init_err := Some (OtherError ''init'')\<rparr>"
  have h1: "status ?sv = Polling"
    by (simp add: polling_def)
  have h2: "\<not> stopService (state ?sv)"
    by (simp add: polling_def newServiceState_def)
  have h3: "StopRequest \<notin> set ?evs" by simp
  have h4: "\<forall>inp. Tick inp \<in> set ?evs \<and> poll_err (poll inp) = Some (NfcError EIO)
              \<longrightarrow> connect exampleConfig (reopen inp) (init_err inp) = Polling"
    by (auto simp: unplugged_def snesSeen_def tagSeen_def connect_present)
  note inst = poll_loop_ends_on_stop_or_failed_reconnect [OF h1, where cfg = exampleConfig and prt = recordAsText and evs = ?evs]
  have p0: "status (run exampleConfig recordAsText ?sv []) = Polling"
    "\<not> stopService (state (run exampleConfig recordAsText ?sv []))"
    using h1 h2 by simp_all
  have p1: "status (run exampleConfig recordAsText ?sv [StopRequest]) = Polling"
    "stopService (state (run exampleConfig recordAsText ?sv [StopRequest]))"
    by (simp_all add: polling_def StopService_def)
  have e1: "poll_err (poll (unplugged readerAbsent 0)) = Some (NfcError EIO)"
    "poll_err (poll ?bad) = Some (NfcError EIO)"
    by (simp_all add: unplugged_def)
  have never: "\<forall>k s. \<exists>e. nfc_Open (reopen (unplugged readerAbsent 0)) k s = Inl e"
    by (simp add: unplugged_def readerAbsent_def)
  have c1: "connect exampleConfig (reopen (unplugged readerAbsent 0))
              (init_err (unplugged readerAbsent 0)) = OpenFailed"
    using inst never by blast
  have o2: "fst (openDeviceWithRetries exampleConfig (reopen ?bad)) = Inr 0"
    by (simp add: unplugged_def openDeviceWithRetries_def exampleConfig_def retryLoop_present)
  have i2: "init_err ?bad \<noteq> None" by simp
  have c2: "connect exampleConfig (reopen ?bad) (init_err ?bad) = InitFailed"
    using inst o2 i2 by blast
  have a: "status (run exampleConfig recordAsText ?sv ?evs) = Polling"
    using inst h2 h3 h4 by blast
  have b: "UID (activeCard (state (run exampleConfig recordAsText ?sv ?evs))) = ''04a1b2c3d4e580''"
    by code_simp
  have c: "status (run exampleConfig recordAsText ?sv
             ([] @ Tick (unplugged readerAbsent 0) # [Tick (snesSeen Second), Socket (Inr ''status'')]))
           = OpenFailed"
    using inst p0 e1(1) c1 by (metis loop_status.distinct(3))
  have d: "status (run exampleConfig recordAsText ?sv ([] @ Tick ?bad # [Tick (snesSeen Second)]))
           = InitFailed"
    using inst p0 e1(2) c2 by (metis loop_status.distinct(5))
  have e: "status (run exampleConfig recordAsText ?sv
             ([StopRequest] @ Tick (snesSeen 0) # [Tick (snesSeen Second)])) = Stopped"
    using inst p1 by blast
  show ?thesis
    using a b c d e by blast
qed

text \<open>
  The wording of the specification fails here: the reader is unplugged (EIO) and does not open
  again within the eleven attempts; the goroutine has returned although the stop
  flag is clear, and the tag shown afterwards is never polled.
\<close>

theorem poll_loop_gives_up_counterexample:
  "status (run exampleConfig recordAsText (polling newServiceState)
      [Tick (unplugged readerAbsent 0), Tick (snesSeen Second)]) = OpenFailed
   \<and> \<not> stopService (state (run exampleConfig recordAsText (polling newServiceState)
      [Tick (unplugged readerAbsent 0), Tick (snesSeen Second)]))
   \<and> activeCard (state (run exampleConfig recordAsText (polling newServiceState)
      [Tick (unplugged readerAbsent 0), Tick (snesSeen Second)])) = emptyCard
   \<and> effects (run exampleConfig recordAsText (polling newServiceState)
      [Tick (unplugged readerAbsent 0), Tick (snesSeen Second)]) = [PlayFail]"
  by code_simp

section \<open>Properties of the control socket\<close>

text \<open>
  C6. A request that is \<open>status\<close> after trimming is answered with
  \<open><unix_ts>,<uid>,<bool>,<text>\<close> of the last scanned card when its UID is not
  empty, and with \<open>0,,<bool>,\<close> otherwise, where \<open><bool>\<close> is the negation of
  \<open>launcher_disabled\<close>; the state is left as it is. \<open>disable\<close> and \<open>enable\<close> set and
  clear the flag and answer with the empty payload, and so does every other
  request, which changes nothing.
\<close>

theorem control_socket_replies:
  assumes "buf \<noteq> []"
  shows "(TrimSpace buf = ''status'' \<longrightarrow>
            handleConn s (Inr buf) =
              (s,
               Some (if UID (lastScanned s) \<noteq> ''''
                     then fmt_d (Unix (ScanTime (lastScanned s))) @ '','' @ UID (lastScanned s)
                          @ '','' @ fmt_t (\<not> disableLauncher s) @ '','' @ Text (lastScanned s)
                     else ''0,,'' @ fmt_t (\<not> disableLauncher s) @ '',''),
               []))
         \<and> (TrimSpace buf = ''disable'' \<longrightarrow>
              handleConn s (Inr buf) = (s\<lparr>disableLauncher := True\<rparr>, Some '''', [CreateDisabledFile]))
         \<and> (TrimSpace buf = ''enable'' \<longrightarrow>
              handleConn s (Inr buf) = (s\<lparr>disableLauncher := False\<rparr>, Some '''', [RemoveDisabledFile]))
         \<and> (TrimSpace buf \<notin> {''status'', ''disable'', ''enable''} \<longrightarrow>
              handleConn s (Inr buf) = (s, Some '''', []))"
  using assms
  by (simp add: handleConn_def Let_def DisableLauncher_def EnableLauncher_def)

theorem control_socket_replies_witness:
  "handleConn newServiceState (Inr ''status'') = (newServiceState, Some ''0,,true,'', [])
   \<and> handleConn (newServiceState\<lparr>lastScanned := snesCard\<lparr>ScanTime := 1700000000 * Second + 5\<rparr>\<rparr>)
        (Inr ''status\<newline>'')
      = (newServiceState\<lparr>lastScanned := snesCard\<lparr>ScanTime := 1700000000 * Second + 5\<rparr>\<rparr>,
         Some ''1700000000,04a1b2c3d4e580,true,system:snes'', [])
   \<and> handleConn (newServiceState\<lparr>disableLauncher := True\<rparr>) (Inr '' status '')
      = (newServiceState\<lparr>disableLauncher := True\<rparr>, Some ''0,,false,'', [])
   \<and> handleConn newServiceState (Inr ''disable'')
      = (newServiceState\<lparr>disableLauncher := True\<rparr>, Some '''', [CreateDisabledFile])
   \<and> handleConn newServiceState (Inr ''reboot'') = (newServiceState, Some '''', [])"
proof -
  have t: "TrimSpace ''status'' = ''status''" "TrimSpace ''status\<newline>'' = ''status''"
    "TrimSpace '' status '' = ''status''" "TrimSpace ''disable'' = ''disable''"
    "TrimSpace ''reboot'' = ''reboot''"
    by code_simp+
  have d: "fmt_d (Unix (1700000000 * Second + 5)) = ''1700000000''"
    by (simp add: fmt_d_def Unix_def Second_def decimal.simps digit_def)
  have n: "UID (lastScanned newServiceState) = ''''" "\<not> disableLauncher newServiceState"
    by (simp_all add: newServiceState_def emptyCard_def)
  let ?s = "newServiceState\<lparr>lastScanned := snesCard\<lparr>ScanTime := 1700000000 * Second + 5\<rparr>\<rparr>"
  have r1: "handleConn newServiceState (Inr ''status'') = (newServiceState, Some ''0,,true,'', [])"
    using control_socket_replies [of "''status''" newServiceState] t(1) n
    by (simp add: fmt_t_def)
  have r2: "handleConn ?s (Inr ''status\<newline>'')
              = (?s, Some ''1700000000,04a1b2c3d4e580,true,system:snes'', [])"
    using control_socket_replies [of "''status\<newline>''" ?s] t(2) n d
    by (simp add: fmt_t_def snesCard_def)
  have r3: "handleConn (newServiceState\<lparr>disableLauncher := True\<rparr>) (Inr '' status '')
              = (newServiceState\<lparr>disableLauncher := True\<rparr>, Some ''0,,false,'', [])"
    using control_socket_replies [of "'' status ''" "newServiceState\<lparr>disableLauncher := True\<rparr>"]
      t(3) n
    by (simp add: fmt_t_def)
  have r4: "handleConn newServiceState (Inr ''disable'')
              = (newServiceState\<lparr>disableLauncher := True\<rparr>, Some '''', [CreateDisabledFile])"
    using control_socket_replies [of "''disable''" newServiceState] t(4)
    by simp
  have r5: "handleConn newServiceState (Inr ''reboot'') = (newServiceState, Some '''', [])"
    using control_socket_replies [of "''reboot''" newServiceState] t(5)
    by simp
  show ?thesis
    using r1 r2 r3 r4 r5 by simp
qed


section \<open>Properties of write mode\<close>












section \<open>Properties of the HTTP handler LaunchGame\<close>

text \<open>
  C9. When the decoded path belongs to no system (\<open>FolderToSystems\<close> returns the
  empty slice), the handler has written its 400 response and then evaluates
  \<open>syss[0].Id\<close> for the log line: index 0 of a slice of length 0, a panic. It is the
  only way the handler panics.
\<close>

theorem LaunchGame_no_system_panics:
  "(decoded env = Inr path \<and> FolderToSystems env path = [] \<longrightarrow>
      index (FolderToSystems env path) 0 = Inl (IndexOutOfRange 0 0)
      \<and> LaunchGame env =
          (Some (IndexOutOfRange 0 0),
           [HttpError (Literal ''no system found for game'') StatusBadRequest]))
   \<and> (fst (LaunchGame env) \<noteq> None \<longleftrightarrow>
        (\<exists>p. decoded env = Inr p \<and> FolderToSystems env p = []))"
proof (cases "decoded env")
  case (Inl err)
  then show ?thesis by (simp add: LaunchGame_def)
next
  case (Inr p)
  show ?thesis
  proof (cases "FolderToSystems env p")
    case Nil
    then show ?thesis using Inr by (simp add: LaunchGame_def index_def)
  next
    case (Cons sys0 rest)
    then show ?thesis using Inr
      by (auto simp: LaunchGame_def index_def Let_def split: option.splits)
  qed
qed

theorem LaunchGame_no_system_panics_witness:
  "decoded noSystemRequest = Inr ''/media/fat/unknown/game.bin''
   \<and> FolderToSystems noSystemRequest ''/media/fat/unknown/game.bin'' = []
   \<and> LaunchGame noSystemRequest =
       (Some (IndexOutOfRange 0 0),
        [HttpError (Literal ''no system found for game'') StatusBadRequest])"
proof -
  have h: "decoded noSystemRequest = Inr ''/media/fat/unknown/game.bin''"
    "FolderToSystems noSystemRequest ''/media/fat/unknown/game.bin'' = []"
    by (simp_all add: noSystemRequest_def)
  show ?thesis
    using LaunchGame_no_system_panics [of noSystemRequest "''/media/fat/unknown/game.bin''"] h
    by blast
qed

end
